theory Spec2Isabelle
  imports Complex_Main "HOL-Library.Monad_Syntax"
begin

section \<open>The host application as seen by AirwaySegmentation.py\<close>

text \<open>
  The module is glue code over 3D Slicer. The model keeps the part of the host that
  the module reads or writes: the nodes of \<^verbatim>\<open>slicer.mrmlScene\<close>, node
  attributes, the display node of a node and its colour node, the content of label-map and
  segmentation nodes, and the trace of log records, DICOM database lookups and invocations
  of the external command-line module.
  A node object is identified with its ID: the class name and a running index, so that
  \<open>NodeID ''vtkMRMLLabelMapVolumeNode'' 3\<close> stands for
  \<^verbatim>\<open>vtkMRMLLabelMapVolumeNode3\<close>.
\<close>

datatype node_id = NodeID string nat

datatype exn = ValueError string | IndexError | AttributeError

datatype pvalue = PNodeID node_id | PString string | PInt int

text \<open>
  What the module does to the outside, in the order in which it does it: log records,
  the two kinds of lookup in the DICOM database, and runs of the external executable
  with their parameter dictionary (keys in insertion order).
\<close>

datatype event =
    LogInfo string
  | LogWarning string
  | FileForInstance string
  | FileValue string string
  | CliRun "(string \<times> pvalue) list"

type_synonym labelmap = "nat list"

record segment =
  segment_name :: string
  segment_tags :: "string \<rightharpoonup> string"

record segmentation =
  segments :: "(string \<times> segment) list"
  conversionParameters :: "string \<rightharpoonup> string"

record slicer =
  mrmlScene :: "node_id list"
  attributes :: "node_id \<Rightarrow> string \<rightharpoonup> string"
  imageData :: "node_id \<Rightarrow> labelmap"
  displayNodeOf :: "node_id \<rightharpoonup> node_id"
  colorNodeID :: "node_id \<rightharpoonup> string"
  segmentationOf :: "node_id \<Rightarrow> segmentation"
  trace :: "event list"

text \<open>
  What the host and the external executable compute is not part of the repository and
  is taken as a parameter: the two lookups of \<^verbatim>\<open>slicer.dicomDatabase\<close>,
  the label map that \<^verbatim>\<open>airwaysegmentationcli\<close> writes for a parameter
  dictionary, the segments that
  \<^verbatim>\<open>ImportLabelmapToSegmentationNode\<close> makes of a label map, the name
  of the terminology tag, the elapsed time as the completion message prints it, and the
  centre that \<^verbatim>\<open>GetSegmentCenter\<close> computes for a segment.
\<close>

record host =
  fileForInstance :: "string \<Rightarrow> string"
  fileValue :: "string \<Rightarrow> string \<Rightarrow> string"
  airwaysegmentationcli :: "(string \<times> pvalue) list \<Rightarrow> labelmap"
  importLabelmap :: "labelmap \<Rightarrow> (string \<times> segment) list"
  terminologyEntryTagName :: string
  elapsedSeconds :: string
  getSegmentCenter :: "segmentation \<Rightarrow> string \<Rightarrow> real \<times> real \<times> real"

subsection \<open>Scene operations\<close>

fun id_index :: "string \<Rightarrow> node_id \<Rightarrow> nat" where
  "id_index cls (NodeID c n) = (if c = cls then n else 0)"

text \<open>
  A new node gets an ID of its class that no node of the scene has, and it has no display
  node yet.
\<close>

definition uniqueID :: "string \<Rightarrow> node_id list \<Rightarrow> node_id" where
  "uniqueID cls ids = NodeID cls (Suc (foldr max (map (id_index cls) ids) 0))"

definition AddNewNodeByClass :: "string \<Rightarrow> slicer \<Rightarrow> node_id \<times> slicer" where
  "AddNewNodeByClass cls s =
     (uniqueID cls (mrmlScene s),
      s\<lparr>mrmlScene := mrmlScene s @ [uniqueID cls (mrmlScene s)],
        displayNodeOf := (displayNodeOf s)(uniqueID cls (mrmlScene s) := None)\<rparr>)"

text \<open>
  \<^verbatim>\<open>CreateDefaultDisplayNodes\<close> adds a display node of the given class to the
  scene for a node that has none. The host removes the display node of a node together
  with the node.
\<close>

definition GetDisplayNode :: "slicer \<Rightarrow> node_id \<Rightarrow> node_id option" where
  "GetDisplayNode s n = displayNodeOf s n"

definition CreateDefaultDisplayNodes :: "string \<Rightarrow> node_id \<Rightarrow> slicer \<Rightarrow> slicer" where
  "CreateDefaultDisplayNodes displayClass n s =
     (case GetDisplayNode s n of
        Some d \<Rightarrow> s
      | None \<Rightarrow>
          (snd (AddNewNodeByClass displayClass s))
            \<lparr>displayNodeOf :=
               (displayNodeOf (snd (AddNewNodeByClass displayClass s)))
                 (n \<mapsto> fst (AddNewNodeByClass displayClass s))\<rparr>)"

definition RemoveNode :: "node_id \<Rightarrow> slicer \<Rightarrow> slicer" where
  "RemoveNode n s =
     s\<lparr>mrmlScene := filter (\<lambda>m. m \<noteq> n \<and> GetDisplayNode s n \<noteq> Some m) (mrmlScene s)\<rparr>"

definition SetAndObserveColorNodeID :: "node_id \<Rightarrow> string \<Rightarrow> slicer \<Rightarrow> slicer" where
  "SetAndObserveColorNodeID displayNode c s =
     s\<lparr>colorNodeID := (colorNodeID s)(displayNode \<mapsto> c)\<rparr>"

definition logging_info :: "string \<Rightarrow> slicer \<Rightarrow> slicer" where
  "logging_info msg s = s\<lparr>trace := trace s @ [LogInfo msg]\<rparr>"

definition logging_warning :: "string \<Rightarrow> slicer \<Rightarrow> slicer" where
  "logging_warning msg s = s\<lparr>trace := trace s @ [LogWarning msg]\<rparr>"

text \<open>
  \<^verbatim>\<open>slicer.cli.run(module, None, parameters, wait_for_completion=True)\<close>
  creates a command-line module node in the scene, runs the executable to its end and
  returns the node. The executable writes its result into the node named by the
  \<^verbatim>\<open>label\<close> parameter.
\<close>

definition write_label :: "host \<Rightarrow> (string \<times> pvalue) list \<Rightarrow> slicer \<Rightarrow> slicer" where
  "write_label h parameters s =
     (case map_of parameters ''label'' of
        Some (PNodeID l) \<Rightarrow>
          s\<lparr>imageData := (imageData s)(l := airwaysegmentationcli h parameters)\<rparr>
      | _ \<Rightarrow> s)"

definition cli_run :: "host \<Rightarrow> (string \<times> pvalue) list \<Rightarrow> slicer \<Rightarrow> node_id \<times> slicer" where
  "cli_run h parameters s =
     (let (cliNode, s1) = AddNewNodeByClass ''vtkMRMLCommandLineModuleNode'' s;
          s2 = s1\<lparr>trace := trace s1 @ [CliRun parameters]\<rparr>
      in (cliNode, write_label h parameters s2))"

subsection \<open>Segmentations\<close>

definition RemoveAllSegments :: "node_id \<Rightarrow> slicer \<Rightarrow> slicer" where
  "RemoveAllSegments n s =
     s\<lparr>segmentationOf := (segmentationOf s)(n := (segmentationOf s n)\<lparr>segments := []\<rparr>)\<rparr>"

text \<open>
  The import gives the segmentation node a display node when it has none, and adds the
  segments found in the label map to those already there.
\<close>

definition add_imported_segments :: "host \<Rightarrow> node_id \<Rightarrow> node_id \<Rightarrow> slicer \<Rightarrow> slicer" where
  "add_imported_segments h labelmapNode n s =
     s\<lparr>segmentationOf := (segmentationOf s)
          (n := (segmentationOf s n)
                  \<lparr>segments := segments (segmentationOf s n)
                                 @ importLabelmap h (imageData s labelmapNode)\<rparr>)\<rparr>"

definition ImportLabelmapToSegmentationNode ::
  "host \<Rightarrow> node_id \<Rightarrow> node_id \<Rightarrow> slicer \<Rightarrow> slicer" where
  "ImportLabelmapToSegmentationNode h labelmapNode n s =
     add_imported_segments h labelmapNode n
       (CreateDefaultDisplayNodes ''vtkMRMLSegmentationDisplayNode'' n s)"

definition SetConversionParameter :: "node_id \<Rightarrow> string \<Rightarrow> string \<Rightarrow> slicer \<Rightarrow> slicer" where
  "SetConversionParameter n name v s =
     s\<lparr>segmentationOf := (segmentationOf s)
          (n := (segmentationOf s n)
                  \<lparr>conversionParameters := (conversionParameters (segmentationOf s n))(name \<mapsto> v)\<rparr>)\<rparr>"

text \<open>
  \<^verbatim>\<open>GetNthSegmentID\<close> is the empty string when the index is out of range,
  and \<^verbatim>\<open>GetSegment\<close> is None for an ID that no segment has.
\<close>

definition GetNthSegmentID :: "segmentation \<Rightarrow> nat \<Rightarrow> string" where
  "GetNthSegmentID sg i = (if i < length (segments sg) then fst (segments sg ! i) else [])"

definition GetSegment :: "segmentation \<Rightarrow> string \<Rightarrow> segment option" where
  "GetSegment sg segmentId = map_of (segments sg) segmentId"

fun update_segment ::
  "string \<Rightarrow> (segment \<Rightarrow> segment) \<Rightarrow> (string \<times> segment) list \<Rightarrow> (string \<times> segment) list" where
  "update_segment segmentId f [] = []"
| "update_segment segmentId f ((i, sg) # rest) =
     (if i = segmentId then (i, f sg) # rest else (i, sg) # update_segment segmentId f rest)"

text \<open>\<^verbatim>\<open>SetTag\<close> on the segment that \<^verbatim>\<open>GetSegment\<close> returned.\<close>

definition SetTag :: "node_id \<Rightarrow> string \<Rightarrow> string \<Rightarrow> string \<Rightarrow> slicer \<Rightarrow> slicer" where
  "SetTag n segmentId tag v s =
     s\<lparr>segmentationOf := (segmentationOf s)
          (n := (segmentationOf s n)
                  \<lparr>segments :=
                     update_segment segmentId
                       (\<lambda>sg. sg\<lparr>segment_tags := (segment_tags sg)(tag \<mapsto> v)\<rparr>)
                       (segments (segmentationOf s n))\<rparr>)\<rparr>"

subsection \<open>Python's \<^verbatim>\<open>str.split()\<close>\<close>

text \<open>
  Without an argument, \<^verbatim>\<open>split\<close> cuts at runs of whitespace and returns
  the non-empty pieces. A character of the model stands for the code point of the same
  number; the whitespace code points below 256 are 9 to 13, 28 to 32, 133 (U+0085) and
  160 (U+00A0).
\<close>

definition isspace :: "char \<Rightarrow> bool" where
  "isspace c =
     (let n = (of_char c :: nat)
      in (9 \<le> n \<and> n \<le> 13) \<or> (28 \<le> n \<and> n \<le> 32) \<or> n = 133 \<or> n = 160)"

fun split_from :: "string \<Rightarrow> string \<Rightarrow> string list" where
  "split_from cur [] = (if cur = [] then [] else [cur])"
| "split_from cur (c # cs) =
     (if isspace c then (if cur = [] then split_from [] cs else cur # split_from [] cs)
      else split_from (cur @ [c]) cs)"

definition str_split :: "string \<Rightarrow> string list" where
  "str_split s = split_from [] s"

section \<open>AirwaySegmentationLogic\<close>

text \<open>
  \<^verbatim>\<open>convolutionKernelFromVolumeNode\<close>: the attribute is falsy when it is
  missing or the empty string; \<^verbatim>\<open>instUIDs.split()[0]\<close> raises IndexError
  when the attribute holds whitespace only.
\<close>

definition convolutionKernelFromVolumeNode ::
  "host \<Rightarrow> node_id \<Rightarrow> slicer \<Rightarrow> (exn + string option) \<times> slicer" where
  "convolutionKernelFromVolumeNode h inputVolume s =
     (case attributes s inputVolume ''DICOM.instanceUIDs'' of
        None \<Rightarrow> (Inr None, s)
      | Some instUIDs \<Rightarrow>
          if instUIDs = [] then (Inr None, s)
          else (case str_split instUIDs of
                  [] \<Rightarrow> (Inl IndexError, s)
                | uid # _ \<Rightarrow>
                    (Inr (Some (fileValue h (fileForInstance h uid) ''0018,1210'')),
                     s\<lparr>trace := trace s @ [FileForInstance uid,
                                            FileValue (fileForInstance h uid) ''0018,1210'']\<rparr>)))"

definition trachea_terminology :: string where
  "trachea_terminology =
     ''Segmentation category and type - 3D Slicer General Anatomy list'' @
     ''~SCT^123037004^Anatomical Structure'' @
     ''~SCT^44567001^Trachea'' @
     ''~^^'' @
     ''~Anatomic codes - DICOM master list'' @
     ''~^^'' @
     ''~^^''"

text \<open>
  \<^verbatim>\<open>process\<close> returns the exception it raised, if any, and the state it
  leaves. A node argument is None or the node. A method call on None raises
  AttributeError: \<^verbatim>\<open>SetAndObserveColorNodeID\<close> when
  \<^verbatim>\<open>GetDisplayNode\<close> returns None, \<^verbatim>\<open>SetTag\<close> when
  \<^verbatim>\<open>GetSegment\<close> returns None.
\<close>

definition process ::
  "host \<Rightarrow> node_id option \<Rightarrow> node_id option \<Rightarrow> node_id option \<Rightarrow> slicer
     \<Rightarrow> exn option \<times> slicer" where
  "process h inputVolume inputSeed outputSegmentation s =
     (case (inputVolume, inputSeed, outputSegmentation) of
        (Some vol, Some seed, Some outSeg) \<Rightarrow>
          (case convolutionKernelFromVolumeNode h vol (logging_info ''Processing started'' s) of
             (Inl e, s2) \<Rightarrow> (Some e, s2)
           | (Inr k, s2) \<Rightarrow>
               let (convolutionKernel, s3) =
                     (case k of
                        Some (c # cs) \<Rightarrow> (c # cs, s2)
                      | _ \<Rightarrow> (''STANDARD'',
                               logging_warning
                                 ''Convolution kernel is unknown, STANDARD will be used.'' s2));
                   (tmpLabelVolume, s4) = AddNewNodeByClass ''vtkMRMLLabelMapVolumeNode'' s3;
                   s5 = CreateDefaultDisplayNodes ''vtkMRMLLabelMapVolumeDisplayNode''
                          tmpLabelVolume s4
               in (case GetDisplayNode s5 tmpLabelVolume of
                     None \<Rightarrow> (Some AttributeError, s5)
                   | Some displayNode \<Rightarrow>
                       let s6 = SetAndObserveColorNodeID displayNode
                                  ''vtkMRMLColorTableNodeFileGenericAnatomyColors.txt'' s5;
                           labelValue = 170;
                           parameters =
                             [(''inputVolume'', PNodeID vol),
                              (''reconstructionKernelType'', PString convolutionKernel),
                              (''label'', PNodeID tmpLabelVolume),
                              (''seed'', PNodeID seed),
                              (''labelValue'', PInt labelValue)];
                           (cliNode, s7) = cli_run h parameters s6;
                           s8 = RemoveNode cliNode s7;
                           s9 = RemoveAllSegments outSeg s8;
                           s10 = ImportLabelmapToSegmentationNode h tmpLabelVolume outSeg s9;
                           s11 = SetConversionParameter outSeg ''Smoothing factor'' ''0.2'' s10;
                           segmentId = GetNthSegmentID (segmentationOf s11 outSeg) 0
                       in (case GetSegment (segmentationOf s11 outSeg) segmentId of
                             None \<Rightarrow> (Some AttributeError, s11)
                           | Some segment \<Rightarrow>
                               let s12 = SetTag outSeg segmentId (terminologyEntryTagName h)
                                           trachea_terminology s11;
                                   s13 = RemoveNode tmpLabelVolume s12
                               in (None,
                                   logging_info
                                     (''Processing completed in '' @ elapsedSeconds h
                                        @ '' seconds'')
                                     s13))))
      | _ \<Rightarrow> (Some (ValueError ''Input volume or seed or output segmentation is invalid''), s))"

section \<open>AirwaySegmentationWidget: parameter synchronisation\<close>

text \<open>
  The widget state: the parameter node (None when unset) with its node references by
  role, whether the widget observes the parameter node's ModifiedEvent, the reentrancy
  flag, the current node of the three selectors, the Apply button, and the nodes of the
  scene, which decide whether a reference resolves to a node.
\<close>

record widget =
  parameterNode :: "(string \<rightharpoonup> node_id) option"
  observingParameterNode :: bool
  updatingGUIFromParameterNode :: bool
  inputVolumeSelector :: "node_id option"
  inputSeedSelector :: "node_id option"
  outputSegmentationSelector :: "node_id option"
  applyButton_toolTip :: string
  applyButton_enabled :: bool
  sceneNodes :: "node_id list"

text \<open>
  \<^verbatim>\<open>GetNodeReference(role)\<close> is the referenced node when the stored ID
  names a node of the scene, and None otherwise.
\<close>

definition GetNodeReference :: "widget \<Rightarrow> string \<Rightarrow> node_id option" where
  "GetNodeReference w role =
     (case parameterNode w of
        None \<Rightarrow> None
      | Some pn \<Rightarrow>
          (case pn role of
             None \<Rightarrow> None
           | Some n \<Rightarrow> if n \<in> set (sceneNodes w) then Some n else None))"

text \<open>
  The two handlers call each other through the host's signals: a selector whose current
  node changes emits \<^verbatim>\<open>currentNodeChanged\<close>, which setup connects to
  \<^verbatim>\<open>updateParameterNodeFromGUI\<close> for the input-volume and the input-seed
  selector (and not for the output-segmentation selector); a parameter node that was
  modified between StartModify and EndModify invokes ModifiedEvent, which
  \<^verbatim>\<open>setParameterNode\<close> has \<^verbatim>\<open>updateGUIFromParameterNode\<close> observe.
  \<^verbatim>\<open>SetNodeReferenceID\<close> with the ID of an empty selector removes the
  reference. The result is None when the calls never return.
\<close>

datatype handler = UpdateGUIFromParameterNode | UpdateParameterNodeFromGUI

partial_function (option) handle :: "handler \<Rightarrow> widget \<Rightarrow> widget option" where
  "handle which w =
     (case which of
        UpdateGUIFromParameterNode \<Rightarrow>
          if parameterNode w = None \<or> updatingGUIFromParameterNode w then Some w
          else do {
            let w1 = w\<lparr>updatingGUIFromParameterNode := True\<rparr>;
            w2 \<leftarrow> (if inputVolumeSelector w1 = GetNodeReference w1 ''InputVolume'' then Some w1
                   else handle UpdateParameterNodeFromGUI
                          (w1\<lparr>inputVolumeSelector := GetNodeReference w1 ''InputVolume''\<rparr>));
            w3 \<leftarrow> (if inputSeedSelector w2 = GetNodeReference w2 ''InputSeed'' then Some w2
                   else handle UpdateParameterNodeFromGUI
                          (w2\<lparr>inputSeedSelector := GetNodeReference w2 ''InputSeed''\<rparr>));
            let w4 = w3\<lparr>outputSegmentationSelector :=
                           GetNodeReference w3 ''OutputSegmentation''\<rparr>;
            let w5 = (if GetNodeReference w4 ''InputVolume'' \<noteq> None
                         \<and> GetNodeReference w4 ''InputSeed'' \<noteq> None
                      then w4\<lparr>applyButton_toolTip := ''Compute airway segmentation'',
                              applyButton_enabled := True\<rparr>
                      else w4\<lparr>applyButton_toolTip := ''Select input CT volume and seed point'',
                              applyButton_enabled := False\<rparr>);
            Some (w5\<lparr>updatingGUIFromParameterNode := False\<rparr>)
          }
      | UpdateParameterNodeFromGUI \<Rightarrow>
          (case parameterNode w of
             None \<Rightarrow> Some w
           | Some pn \<Rightarrow>
               if updatingGUIFromParameterNode w then Some w
               else
                 let pn1 = pn(''InputVolume'' := inputVolumeSelector w);
                     pn2 = pn1(''InputSeed'' := inputSeedSelector w);
                     pn3 = pn2(''OutputVolume'' := outputSegmentationSelector w);
                     modified = (pn ''InputVolume'' \<noteq> inputVolumeSelector w
                                 \<or> pn1 ''InputSeed'' \<noteq> inputSeedSelector w
                                 \<or> pn2 ''OutputVolume'' \<noteq> outputSegmentationSelector w);
                     w1 = w\<lparr>parameterNode := Some pn3\<rparr>
                 in if modified \<and> observingParameterNode w1
                    then handle UpdateGUIFromParameterNode w1
                    else Some w1))"

definition updateGUIFromParameterNode :: "widget \<Rightarrow> widget option" where
  "updateGUIFromParameterNode w = handle UpdateGUIFromParameterNode w"

definition updateParameterNodeFromGUI :: "widget \<Rightarrow> widget option" where
  "updateParameterNodeFromGUI w = handle UpdateParameterNodeFromGUI w"

section \<open>AirwaySegmentationTest\<close>

text \<open>
  \<^verbatim>\<open>numpy.allclose(a, b, rtol=1e-05, atol=1e-08)\<close> holds when every
  coordinate has \<open>\<bar>a - b\<bar> \<le> atol + rtol * \<bar>b\<bar>\<close>; the test passes
  \<^verbatim>\<open>atol=5.0\<close> and leaves \<^verbatim>\<open>rtol\<close> at its default. The
  coordinates are modelled as real numbers.
\<close>

definition isclose :: "real \<Rightarrow> real \<Rightarrow> real \<Rightarrow> real \<Rightarrow> bool" where
  "isclose rtol atol a b = (\<bar>a - b\<bar> \<le> atol + rtol * \<bar>b\<bar>)"

definition allclose ::
  "real \<times> real \<times> real \<Rightarrow> real \<times> real \<times> real \<Rightarrow> real \<Rightarrow> real \<Rightarrow> bool" where
  "allclose a b rtol atol =
     (case (a, b) of ((a1, a2, a3), (b1, b2, b3)) \<Rightarrow>
        isclose rtol atol a1 b1 \<and> isclose rtol atol a2 b2 \<and> isclose rtol atol a3 b3)"

definition allclose_default_rtol :: real where
  "allclose_default_rtol = 1 / 100000"

definition expectedsegmentCenter :: "real \<times> real \<times> real" where
  "expectedsegmentCenter = (- (55 / 10), - (59 / 10), - (1003 / 10))"

datatype verdict = Passed | Failed | Errored exn

text \<open>
  The test starts from the cleared scene, loads the sample volume (which carries no
  attribute), adds a seed node and an empty segmentation node and runs
  \<^verbatim>\<open>process\<close>; \<^verbatim>\<open>show3D\<close> changes nothing the model keeps.
\<close>

definition test_pipeline :: "host \<Rightarrow> slicer \<Rightarrow> exn option \<times> slicer \<times> node_id" where
  "test_pipeline h s =
     (let s0 = s\<lparr>mrmlScene := []\<rparr>;
          (inputVolumeNode, s1) = AddNewNodeByClass ''vtkMRMLScalarVolumeNode'' s0;
          s2 = s1\<lparr>attributes := (attributes s1)(inputVolumeNode := Map.empty)\<rparr>;
          (inputSeedNode, s3) = AddNewNodeByClass ''vtkMRMLMarkupsFiducialNode'' s2;
          (outputSegmentationNode, s4) = AddNewNodeByClass ''vtkMRMLSegmentationNode'' s3;
          s5 = s4\<lparr>segmentationOf := (segmentationOf s4)
                   (outputSegmentationNode :=
                      \<lparr>segments = [], conversionParameters = Map.empty\<rparr>)\<rparr>;
          (e, s6) = process h (Some inputVolumeNode) (Some inputSeedNode)
                      (Some outputSegmentationNode) s5
      in (e, s6, outputSegmentationNode))"

definition test_AirwaySegmentation1 :: "host \<Rightarrow> slicer \<Rightarrow> verdict" where
  "test_AirwaySegmentation1 h s =
     (case test_pipeline h s of
        (Some e, _, _) \<Rightarrow> Errored e
      | (None, s', outputSegmentationNode) \<Rightarrow>
          let sg = segmentationOf s' outputSegmentationNode in
          if length (segments sg) \<noteq> 1 then Failed
          else (case segments sg of
                  [] \<Rightarrow> Failed
                | (segmentId, _) # _ \<Rightarrow>
                    if allclose (getSegmentCenter h sg segmentId) expectedsegmentCenter
                         allclose_default_rtol 5
                    then Passed else Failed))"

section \<open>Notions for the statements and proofs\<close>

text \<open>The parameter dictionaries of the runs of the external executable in a trace.\<close>

definition cliRuns :: "event list \<Rightarrow> (string \<times> pvalue) list list" where
  "cliRuns t = concat (map (\<lambda>e. case e of CliRun p \<Rightarrow> [p] | _ \<Rightarrow> []) t)"

text \<open>
  The steps of \<^verbatim>\<open>process\<close> by name, for the proofs: the kernel passed on and
  the state after the fallback warning, the parameter dictionary, the state on reaching
  the terminology tag, and the tagging with the clean-up that follows it.
\<close>

definition chosen_kernel :: "string option \<Rightarrow> string" where
  "chosen_kernel k = (case k of Some (c # cs) \<Rightarrow> c # cs | _ \<Rightarrow> ''STANDARD'')"

definition after_kernel :: "string option \<Rightarrow> slicer \<Rightarrow> slicer" where
  "after_kernel k s =
     (case k of Some (c # cs) \<Rightarrow> s
      | _ \<Rightarrow> logging_warning ''Convolution kernel is unknown, STANDARD will be used.'' s)"

definition cli_parameters :: "node_id \<Rightarrow> string \<Rightarrow> node_id \<Rightarrow> node_id \<Rightarrow> (string \<times> pvalue) list" where
  "cli_parameters vol ck label seed =
     [(''inputVolume'', PNodeID vol), (''reconstructionKernelType'', PString ck),
      (''label'', PNodeID label), (''seed'', PNodeID seed), (''labelValue'', PInt 170)]"

definition labelmap_added :: "slicer \<Rightarrow> slicer" where
  "labelmap_added s =
     CreateDefaultDisplayNodes ''vtkMRMLLabelMapVolumeDisplayNode''
       (uniqueID ''vtkMRMLLabelMapVolumeNode'' (mrmlScene s))
       (snd (AddNewNodeByClass ''vtkMRMLLabelMapVolumeNode'' s))"

definition before_cli :: "slicer \<Rightarrow> slicer" where
  "before_cli s =
     SetAndObserveColorNodeID
       (uniqueID ''vtkMRMLLabelMapVolumeDisplayNode''
          (mrmlScene s @ [uniqueID ''vtkMRMLLabelMapVolumeNode'' (mrmlScene s)]))
       ''vtkMRMLColorTableNodeFileGenericAnatomyColors.txt'' (labelmap_added s)"

definition before_tag :: "host \<Rightarrow> node_id \<Rightarrow> node_id \<Rightarrow> node_id \<Rightarrow> string \<Rightarrow> slicer \<Rightarrow> slicer" where
  "before_tag h vol seed out ck s =
     SetConversionParameter out ''Smoothing factor'' ''0.2''
       (ImportLabelmapToSegmentationNode h (uniqueID ''vtkMRMLLabelMapVolumeNode'' (mrmlScene s)) out
         (RemoveAllSegments out
           (RemoveNode
             (fst (cli_run h
                     (cli_parameters vol ck (uniqueID ''vtkMRMLLabelMapVolumeNode'' (mrmlScene s)) seed)
                     (before_cli s)))
             (snd (cli_run h
                     (cli_parameters vol ck (uniqueID ''vtkMRMLLabelMapVolumeNode'' (mrmlScene s)) seed)
                     (before_cli s))))))"

definition tag_and_finish :: "host \<Rightarrow> node_id \<Rightarrow> node_id \<Rightarrow> slicer \<Rightarrow> exn option \<times> slicer" where
  "tag_and_finish h tmp out s =
     (case GetSegment (segmentationOf s out) (GetNthSegmentID (segmentationOf s out) 0) of
        None \<Rightarrow> (Some AttributeError, s)
      | Some segment \<Rightarrow>
          (None, logging_info (''Processing completed in '' @ elapsedSeconds h @ '' seconds'')
             (RemoveNode tmp (SetTag out (GetNthSegmentID (segmentationOf s out) 0)
                (terminologyEntryTagName h) trachea_terminology s))))"

section \<open>Concrete inputs\<close>

text \<open>
  A scene with a CT volume, a seed node and an output segmentation that already holds one
  segment; the volume was loaded from DICOM and names two instances.
\<close>

definition vol1 :: node_id where "vol1 = NodeID ''vtkMRMLScalarVolumeNode'' 1"
definition seed1 :: node_id where "seed1 = NodeID ''vtkMRMLMarkupsFiducialNode'' 1"
definition seg1 :: node_id where "seg1 = NodeID ''vtkMRMLSegmentationNode'' 1"

definition old_segment :: "string \<times> segment" where
  "old_segment = (''Segment_old'', \<lparr>segment_name = ''earlier result'', segment_tags = Map.empty\<rparr>)"

definition airway_segment :: "string \<times> segment" where
  "airway_segment = (''Segment_1'', \<lparr>segment_name = ''170'', segment_tags = Map.empty\<rparr>)"

definition scene_with_uids :: "string option \<Rightarrow> slicer" where
  "scene_with_uids uids =
     \<lparr>mrmlScene = [vol1, seed1, seg1],
      attributes = (\<lambda>n k. if n = vol1 \<and> k = ''DICOM.instanceUIDs'' then uids else None),
      imageData = (\<lambda>n. []),
      displayNodeOf = Map.empty,
      colorNodeID = Map.empty,
      segmentationOf = (\<lambda>n. \<lparr>segments = [old_segment], conversionParameters = Map.empty\<rparr>),
      trace = []\<rparr>"

text \<open>
  A host whose DICOM database knows the kernel of every file; the executable marks the
  voxels it is given in \<open>found\<close>, and the import makes one segment when label 170
  occurs. The segment centre is given.
\<close>

definition host_with :: "labelmap \<Rightarrow> real \<times> real \<times> real \<Rightarrow> host" where
  "host_with found centre =
     \<lparr>fileForInstance = (\<lambda>uid. ''/dicom/'' @ uid),
      fileValue = (\<lambda>f t. if t = ''0018,1210'' then ''B70f'' else []),
      airwaysegmentationcli = (\<lambda>p. found),
      importLabelmap = (\<lambda>lm. if 170 \<in> set lm then [airway_segment] else []),
      terminologyEntryTagName = ''TerminologyEntry'',
      elapsedSeconds = ''1.00'',
      getSegmentCenter = (\<lambda>sg i. centre)\<rparr>"

text \<open>
  A widget in an entered module: the parameter node holds no reference yet, the user has
  selected a volume, a seed node and an output segmentation, all three in the scene.
\<close>

definition widget_with :: "bool \<Rightarrow> widget" where
  "widget_with updating =
     \<lparr>parameterNode = Some Map.empty,
      observingParameterNode = True,
      updatingGUIFromParameterNode = updating,
      inputVolumeSelector = Some vol1,
      inputSeedSelector = Some seed1,
      outputSegmentationSelector = Some seg1,
      applyButton_toolTip = [],
      applyButton_enabled = False,
      sceneNodes = [vol1, seed1, seg1]\<rparr>"

section \<open>Frame lemmas for the host operations\<close>

lemma cliRuns_simps [simp]:
  "cliRuns [] = []"
  "cliRuns (t @ u) = cliRuns t @ cliRuns u"
  "cliRuns (CliRun p # t) = p # cliRuns t"
  "cliRuns (LogInfo m # t) = cliRuns t"
  "cliRuns (LogWarning m # t) = cliRuns t"
  "cliRuns (FileForInstance a # t) = cliRuns t"
  "cliRuns (FileValue a b # t) = cliRuns t"
  by (simp_all add: cliRuns_def)

lemma id_index_le_foldr_max:
  "n \<in> set ns \<Longrightarrow> id_index cls n \<le> foldr max (map (id_index cls) ns) 0"
  by (induction ns) (auto simp: max_def)

lemma uniqueID_fresh: "uniqueID cls ids \<notin> set ids"
proof
  assume "uniqueID cls ids \<in> set ids"
  from id_index_le_foldr_max[OF this, of cls]
  show False by (simp add: uniqueID_def)
qed

lemma uniqueID_class: "c \<noteq> c' \<Longrightarrow> uniqueID c ids \<noteq> uniqueID c' ids'"
  by (simp add: uniqueID_def)

lemma foldr_max_snoc_0: "foldr max (ns @ [0]) (0::nat) = foldr max ns 0"
  by (induction ns) simp_all

lemma uniqueID_other_class:
  "c \<noteq> cls \<Longrightarrow> uniqueID cls (ids @ [uniqueID c ids']) = uniqueID cls ids"
  by (simp add: uniqueID_def foldr_max_snoc_0)

lemma GetDisplayNode_eq [simp]: "GetDisplayNode s n = displayNodeOf s n"
  by (simp add: GetDisplayNode_def)

lemma logging_frame [simp]:
  "mrmlScene (logging_info m s) = mrmlScene s"
  "attributes (logging_info m s) = attributes s"
  "imageData (logging_info m s) = imageData s"
  "segmentationOf (logging_info m s) = segmentationOf s"
  "displayNodeOf (logging_info m s) = displayNodeOf s"
  "trace (logging_info m s) = trace s @ [LogInfo m]"
  "mrmlScene (logging_warning m s) = mrmlScene s"
  "attributes (logging_warning m s) = attributes s"
  "imageData (logging_warning m s) = imageData s"
  "segmentationOf (logging_warning m s) = segmentationOf s"
  "displayNodeOf (logging_warning m s) = displayNodeOf s"
  "trace (logging_warning m s) = trace s @ [LogWarning m]"
  by (simp_all add: logging_info_def logging_warning_def)

lemma AddNewNodeByClass_frame [simp]:
  "fst (AddNewNodeByClass cls s) = uniqueID cls (mrmlScene s)"
  "mrmlScene (snd (AddNewNodeByClass cls s)) = mrmlScene s @ [uniqueID cls (mrmlScene s)]"
  "attributes (snd (AddNewNodeByClass cls s)) = attributes s"
  "imageData (snd (AddNewNodeByClass cls s)) = imageData s"
  "segmentationOf (snd (AddNewNodeByClass cls s)) = segmentationOf s"
  "displayNodeOf (snd (AddNewNodeByClass cls s)) =
     (displayNodeOf s)(uniqueID cls (mrmlScene s) := None)"
  "trace (snd (AddNewNodeByClass cls s)) = trace s"
  by (simp_all add: AddNewNodeByClass_def)

lemma CreateDefaultDisplayNodes_frame [simp]:
  "attributes (CreateDefaultDisplayNodes cls n s) = attributes s"
  "imageData (CreateDefaultDisplayNodes cls n s) = imageData s"
  "segmentationOf (CreateDefaultDisplayNodes cls n s) = segmentationOf s"
  "trace (CreateDefaultDisplayNodes cls n s) = trace s"
  by (simp_all add: CreateDefaultDisplayNodes_def split: option.splits)

lemma CreateDefaultDisplayNodes_scene:
  "mrmlScene (CreateDefaultDisplayNodes cls n s) =
     mrmlScene s @ (case displayNodeOf s n of None \<Rightarrow> [uniqueID cls (mrmlScene s)] | Some d \<Rightarrow> [])"
  "displayNodeOf (CreateDefaultDisplayNodes cls n s) =
     (case displayNodeOf s n of
        None \<Rightarrow> (displayNodeOf s)(uniqueID cls (mrmlScene s) := None, n \<mapsto> uniqueID cls (mrmlScene s))
      | Some d \<Rightarrow> displayNodeOf s)"
  by (simp_all add: CreateDefaultDisplayNodes_def split: option.splits)

lemma RemoveNode_frame [simp]:
  "mrmlScene (RemoveNode n s) =
     filter (\<lambda>m. m \<noteq> n \<and> displayNodeOf s n \<noteq> Some m) (mrmlScene s)"
  "attributes (RemoveNode n s) = attributes s"
  "imageData (RemoveNode n s) = imageData s"
  "segmentationOf (RemoveNode n s) = segmentationOf s"
  "displayNodeOf (RemoveNode n s) = displayNodeOf s"
  "trace (RemoveNode n s) = trace s"
  by (simp_all add: RemoveNode_def)

lemma SetAndObserveColorNodeID_frame [simp]:
  "mrmlScene (SetAndObserveColorNodeID n c s) = mrmlScene s"
  "attributes (SetAndObserveColorNodeID n c s) = attributes s"
  "imageData (SetAndObserveColorNodeID n c s) = imageData s"
  "segmentationOf (SetAndObserveColorNodeID n c s) = segmentationOf s"
  "displayNodeOf (SetAndObserveColorNodeID n c s) = displayNodeOf s"
  "trace (SetAndObserveColorNodeID n c s) = trace s"
  by (simp_all add: SetAndObserveColorNodeID_def)

lemma write_label_frame [simp]:
  "mrmlScene (write_label h p s) = mrmlScene s"
  "attributes (write_label h p s) = attributes s"
  "segmentationOf (write_label h p s) = segmentationOf s"
  "displayNodeOf (write_label h p s) = displayNodeOf s"
  "trace (write_label h p s) = trace s"
  by (simp_all add: write_label_def split: option.splits pvalue.splits)

lemma write_label_imageData:
  "map_of p ''label'' = Some (PNodeID l) \<Longrightarrow>
   imageData (write_label h p s) = (imageData s)(l := airwaysegmentationcli h p)"
  by (simp add: write_label_def)

lemma cli_run_frame [simp]:
  "fst (cli_run h p s) = uniqueID ''vtkMRMLCommandLineModuleNode'' (mrmlScene s)"
  "mrmlScene (snd (cli_run h p s)) =
     mrmlScene s @ [uniqueID ''vtkMRMLCommandLineModuleNode'' (mrmlScene s)]"
  "attributes (snd (cli_run h p s)) = attributes s"
  "segmentationOf (snd (cli_run h p s)) = segmentationOf s"
  "displayNodeOf (snd (cli_run h p s)) =
     (displayNodeOf s)(uniqueID ''vtkMRMLCommandLineModuleNode'' (mrmlScene s) := None)"
  "trace (snd (cli_run h p s)) = trace s @ [CliRun p]"
  by (simp_all add: cli_run_def AddNewNodeByClass_def)

lemma cli_run_imageData:
  "map_of p ''label'' = Some (PNodeID l) \<Longrightarrow>
   imageData (snd (cli_run h p s)) = (imageData s)(l := airwaysegmentationcli h p)"
  by (simp add: cli_run_def AddNewNodeByClass_def write_label_imageData)

lemma segmentation_ops_frame [simp]:
  "mrmlScene (RemoveAllSegments n s) = mrmlScene s"
  "imageData (RemoveAllSegments n s) = imageData s"
  "displayNodeOf (RemoveAllSegments n s) = displayNodeOf s"
  "trace (RemoveAllSegments n s) = trace s"
  "mrmlScene (add_imported_segments h l n s) = mrmlScene s"
  "imageData (add_imported_segments h l n s) = imageData s"
  "displayNodeOf (add_imported_segments h l n s) = displayNodeOf s"
  "trace (add_imported_segments h l n s) = trace s"
  "mrmlScene (SetConversionParameter n k v s) = mrmlScene s"
  "imageData (SetConversionParameter n k v s) = imageData s"
  "displayNodeOf (SetConversionParameter n k v s) = displayNodeOf s"
  "trace (SetConversionParameter n k v s) = trace s"
  "mrmlScene (SetTag n i t v s) = mrmlScene s"
  "imageData (SetTag n i t v s) = imageData s"
  "displayNodeOf (SetTag n i t v s) = displayNodeOf s"
  "trace (SetTag n i t v s) = trace s"
  by (simp_all add: RemoveAllSegments_def add_imported_segments_def
      SetConversionParameter_def SetTag_def)

lemma ImportLabelmap_frame [simp]:
  "imageData (ImportLabelmapToSegmentationNode h l n s) = imageData s"
  "trace (ImportLabelmapToSegmentationNode h l n s) = trace s"
  by (simp_all add: ImportLabelmapToSegmentationNode_def)

lemma ImportLabelmap_scene:
  "mrmlScene (ImportLabelmapToSegmentationNode h l n s) =
     mrmlScene s @ (case displayNodeOf s n of
                      None \<Rightarrow> [uniqueID ''vtkMRMLSegmentationDisplayNode'' (mrmlScene s)]
                    | Some d \<Rightarrow> [])"
  "displayNodeOf (ImportLabelmapToSegmentationNode h l n s) =
     (case displayNodeOf s n of
        None \<Rightarrow> (displayNodeOf s)
                  (uniqueID ''vtkMRMLSegmentationDisplayNode'' (mrmlScene s) := None,
                   n \<mapsto> uniqueID ''vtkMRMLSegmentationDisplayNode'' (mrmlScene s))
      | Some d \<Rightarrow> displayNodeOf s)"
  by (simp_all add: ImportLabelmapToSegmentationNode_def CreateDefaultDisplayNodes_scene)

lemma segments_ops [simp]:
  "segments (segmentationOf (RemoveAllSegments n s) n) = []"
  "segments (segmentationOf (ImportLabelmapToSegmentationNode h l n s) n) =
     segments (segmentationOf s n) @ importLabelmap h (imageData s l)"
  "segments (segmentationOf (SetConversionParameter n k v s) n) = segments (segmentationOf s n)"
  "segments (segmentationOf (SetTag n i t v s) n) =
     update_segment i (\<lambda>sg. sg\<lparr>segment_tags := (segment_tags sg)(t \<mapsto> v)\<rparr>)
       (segments (segmentationOf s n))"
  by (simp_all add: RemoveAllSegments_def ImportLabelmapToSegmentationNode_def
      add_imported_segments_def SetConversionParameter_def SetTag_def)

lemma convolutionKernel_frame [simp]:
  "mrmlScene (snd (convolutionKernelFromVolumeNode h vol s)) = mrmlScene s"
  "attributes (snd (convolutionKernelFromVolumeNode h vol s)) = attributes s"
  "imageData (snd (convolutionKernelFromVolumeNode h vol s)) = imageData s"
  "segmentationOf (snd (convolutionKernelFromVolumeNode h vol s)) = segmentationOf s"
  "displayNodeOf (snd (convolutionKernelFromVolumeNode h vol s)) = displayNodeOf s"
  by (simp_all add: convolutionKernelFromVolumeNode_def split: option.splits list.splits)

lemma convolutionKernel_fst_logging:
  "fst (convolutionKernelFromVolumeNode h vol (logging_info m s)) =
   fst (convolutionKernelFromVolumeNode h vol s)"
  by (simp add: convolutionKernelFromVolumeNode_def logging_info_def
      split: option.splits list.splits)

lemma convolutionKernel_trace:
  "\<exists>q. trace (snd (convolutionKernelFromVolumeNode h vol s)) = trace s @ q \<and> cliRuns q = []"
proof (cases "attributes s vol ''DICOM.instanceUIDs''")
  case None
  then show ?thesis by (simp add: convolutionKernelFromVolumeNode_def)
next
  case (Some u)
  show ?thesis
  proof (cases "u = [] \<or> str_split u = []")
    case True
    with Some show ?thesis by (auto simp add: convolutionKernelFromVolumeNode_def)
  next
    case False
    then obtain uid rest where "str_split u = uid # rest" by (cases "str_split u") auto
    with Some False show ?thesis
      by (simp add: convolutionKernelFromVolumeNode_def)
  qed
qed

lemma conv_pair:
  assumes "fst (convolutionKernelFromVolumeNode h vol s) = Inr k"
  obtains s2 where "convolutionKernelFromVolumeNode h vol (logging_info ''Processing started'' s) = (Inr k, s2)"
  using assms convolutionKernel_fst_logging[of h vol "''Processing started''" s]
  by (cases "convolutionKernelFromVolumeNode h vol (logging_info ''Processing started'' s)") simp

lemma update_segment_head [simp]:
  "update_segment (fst x) f (x # rest) = (fst x, f (snd x)) # rest"
  by (cases x) simp

lemma labelmap_added_frame [simp]:
  "mrmlScene (labelmap_added s) =
     mrmlScene s @ [uniqueID ''vtkMRMLLabelMapVolumeNode'' (mrmlScene s),
                    uniqueID ''vtkMRMLLabelMapVolumeDisplayNode''
                      (mrmlScene s @ [uniqueID ''vtkMRMLLabelMapVolumeNode'' (mrmlScene s)])]"
  "displayNodeOf (labelmap_added s) =
     (displayNodeOf s)
       (uniqueID ''vtkMRMLLabelMapVolumeNode'' (mrmlScene s) := None,
        uniqueID ''vtkMRMLLabelMapVolumeDisplayNode''
          (mrmlScene s @ [uniqueID ''vtkMRMLLabelMapVolumeNode'' (mrmlScene s)]) := None,
        uniqueID ''vtkMRMLLabelMapVolumeNode'' (mrmlScene s) \<mapsto>
          uniqueID ''vtkMRMLLabelMapVolumeDisplayNode''
            (mrmlScene s @ [uniqueID ''vtkMRMLLabelMapVolumeNode'' (mrmlScene s)]))"
  "attributes (labelmap_added s) = attributes s"
  "imageData (labelmap_added s) = imageData s"
  "segmentationOf (labelmap_added s) = segmentationOf s"
  "trace (labelmap_added s) = trace s"
  by (simp_all add: labelmap_added_def CreateDefaultDisplayNodes_scene)

lemma before_cli_frame [simp]:
  "mrmlScene (before_cli s) = mrmlScene (labelmap_added s)"
  "displayNodeOf (before_cli s) = displayNodeOf (labelmap_added s)"
  "attributes (before_cli s) = attributes s"
  "imageData (before_cli s) = imageData s"
  "segmentationOf (before_cli s) = segmentationOf s"
  "trace (before_cli s) = trace s"
  by (simp_all add: before_cli_def)

lemma process_steps:
  assumes "convolutionKernelFromVolumeNode h vol (logging_info ''Processing started'' s) = (Inr k, s2)"
  shows "process h (Some vol) (Some seed) (Some out) s =
         tag_and_finish h (uniqueID ''vtkMRMLLabelMapVolumeNode'' (mrmlScene s2)) out
           (before_tag h vol seed out (chosen_kernel k) (after_kernel k s2))"
proof -
  have d: "displayNodeOf (labelmap_added s') (uniqueID ''vtkMRMLLabelMapVolumeNode'' (mrmlScene s'))
           = Some (uniqueID ''vtkMRMLLabelMapVolumeDisplayNode''
                     (mrmlScene s' @ [uniqueID ''vtkMRMLLabelMapVolumeNode'' (mrmlScene s')]))" for s'
    by simp
  consider "k = None" | "k = Some []" | c' cs where "k = Some (c' # cs)"
    by (cases k; cases "the k") auto
  then show ?thesis
  proof cases
    case 1
    with assms d[of "logging_warning ''Convolution kernel is unknown, STANDARD will be used.'' s2"]
    show ?thesis
      by (simp add: process_def Let_def split_def tag_and_finish_def before_tag_def
          before_cli_def labelmap_added_def
          chosen_kernel_def after_kernel_def cli_parameters_def cong: option.case_cong)
  next
    case 2
    with assms d[of "logging_warning ''Convolution kernel is unknown, STANDARD will be used.'' s2"]
    show ?thesis
      by (simp add: process_def Let_def split_def tag_and_finish_def before_tag_def
          before_cli_def labelmap_added_def
          chosen_kernel_def after_kernel_def cli_parameters_def cong: option.case_cong)
  next
    case 3
    with assms d[of s2] show ?thesis
      by (simp add: process_def Let_def split_def tag_and_finish_def before_tag_def
          before_cli_def labelmap_added_def
          chosen_kernel_def after_kernel_def cli_parameters_def cong: option.case_cong)
  qed
qed

lemma map_of_cli_parameters_label [simp]:
  "map_of (cli_parameters vol ck label seed) ''label'' = Some (PNodeID label)"
  by (simp add: cli_parameters_def)

lemma before_tag_frame:
  "trace (before_tag h vol seed out ck s) =
     trace s @ [CliRun (cli_parameters vol ck (uniqueID ''vtkMRMLLabelMapVolumeNode'' (mrmlScene s)) seed)]"
  "segments (segmentationOf (before_tag h vol seed out ck s) out) =
     importLabelmap h (airwaysegmentationcli h
       (cli_parameters vol ck (uniqueID ''vtkMRMLLabelMapVolumeNode'' (mrmlScene s)) seed))"
  "imageData (before_tag h vol seed out ck s) (uniqueID ''vtkMRMLLabelMapVolumeNode'' (mrmlScene s)) =
     airwaysegmentationcli h
       (cli_parameters vol ck (uniqueID ''vtkMRMLLabelMapVolumeNode'' (mrmlScene s)) seed)"
  by (simp_all add: before_tag_def cli_run_imageData)

text \<open>
  The scene on reaching the terminology tag, for an output segmentation that is a node
  of the scene: the label-map node and its display node are there, the command-line
  module node is gone, and the import has added a display node for the segmentation if it
  had none.
\<close>

lemma before_tag_scene:
  assumes "out \<in> set (mrmlScene s)"
  shows "mrmlScene (before_tag h vol seed out ck s) =
     mrmlScene s @ [uniqueID ''vtkMRMLLabelMapVolumeNode'' (mrmlScene s),
                    uniqueID ''vtkMRMLLabelMapVolumeDisplayNode'' (mrmlScene s)]
       @ (case displayNodeOf s out of
            None \<Rightarrow> [uniqueID ''vtkMRMLSegmentationDisplayNode'' (mrmlScene s)]
          | Some d \<Rightarrow> [])"
    and "displayNodeOf (before_tag h vol seed out ck s)
           (uniqueID ''vtkMRMLLabelMapVolumeNode'' (mrmlScene s)) =
         Some (uniqueID ''vtkMRMLLabelMapVolumeDisplayNode'' (mrmlScene s))"
proof -
  let ?tmp = "uniqueID ''vtkMRMLLabelMapVolumeNode'' (mrmlScene s)"
  let ?tmpD = "uniqueID ''vtkMRMLLabelMapVolumeDisplayNode'' (mrmlScene s)"
  let ?cli = "uniqueID ''vtkMRMLCommandLineModuleNode'' (mrmlScene s)"
  let ?segD = "uniqueID ''vtkMRMLSegmentationDisplayNode'' (mrmlScene s)"
  have u: "uniqueID ''vtkMRMLLabelMapVolumeDisplayNode'' (mrmlScene s @ [?tmp]) = ?tmpD"
    "uniqueID ''vtkMRMLCommandLineModuleNode'' (mrmlScene s @ [?tmp, ?tmpD]) = ?cli"
    "uniqueID ''vtkMRMLSegmentationDisplayNode'' (mrmlScene s @ [?tmp, ?tmpD]) = ?segD"
    using uniqueID_other_class[of "''vtkMRMLLabelMapVolumeNode''" "''vtkMRMLLabelMapVolumeDisplayNode''"
        "mrmlScene s" "mrmlScene s"]
      uniqueID_other_class[of "''vtkMRMLLabelMapVolumeDisplayNode''" "''vtkMRMLCommandLineModuleNode''"
        "mrmlScene s @ [?tmp]" "mrmlScene s"]
      uniqueID_other_class[of "''vtkMRMLLabelMapVolumeNode''" "''vtkMRMLCommandLineModuleNode''"
        "mrmlScene s" "mrmlScene s"]
      uniqueID_other_class[of "''vtkMRMLLabelMapVolumeDisplayNode''" "''vtkMRMLSegmentationDisplayNode''"
        "mrmlScene s @ [?tmp]" "mrmlScene s"]
      uniqueID_other_class[of "''vtkMRMLLabelMapVolumeNode''" "''vtkMRMLSegmentationDisplayNode''"
        "mrmlScene s" "mrmlScene s"]
    by simp_all
  have fresh: "?tmp \<notin> set (mrmlScene s)" "?tmpD \<notin> set (mrmlScene s)" "?cli \<notin> set (mrmlScene s)"
    "?segD \<notin> set (mrmlScene s)"
    by (simp_all add: uniqueID_fresh)
  with assms have ne: "out \<noteq> ?tmp" "out \<noteq> ?tmpD" "out \<noteq> ?cli" "out \<noteq> ?segD" by auto
  have cl: "?cli \<noteq> ?tmp" "?cli \<noteq> ?tmpD" "?segD \<noteq> ?tmp" "?tmpD \<noteq> ?tmp"
    by (simp_all add: uniqueID_class)
  have flt: "filter (\<lambda>m. m \<noteq> ?cli) (mrmlScene s) = mrmlScene s"
    using fresh(3) by (auto simp add: filter_id_conv)
  show "mrmlScene (before_tag h vol seed out ck s) =
     mrmlScene s @ [?tmp, ?tmpD]
       @ (case displayNodeOf s out of None \<Rightarrow> [?segD] | Some d \<Rightarrow> [])"
    using ne cl flt
    by (simp add: before_tag_def ImportLabelmap_scene u split: option.splits)
  show "displayNodeOf (before_tag h vol seed out ck s) ?tmp = Some ?tmpD"
    using ne cl flt
    by (simp add: before_tag_def ImportLabelmap_scene u split: option.splits)
qed

lemma tag_and_finish_cases:
  "segments (segmentationOf s out) = [] \<Longrightarrow> tag_and_finish h tmp out s = (Some AttributeError, s)"
  "segments (segmentationOf s out) = x # rest \<Longrightarrow>
     tag_and_finish h tmp out s =
       (None, logging_info (''Processing completed in '' @ elapsedSeconds h @ '' seconds'')
             (RemoveNode tmp (SetTag out (fst x) (terminologyEntryTagName h) trachea_terminology s)))"
  by (cases x; simp add: tag_and_finish_def GetSegment_def GetNthSegmentID_def)+

lemma after_kernel_frame [simp]:
  "mrmlScene (after_kernel k s) = mrmlScene s"
  "imageData (after_kernel k s) = imageData s"
  "segmentationOf (after_kernel k s) = segmentationOf s"
  "displayNodeOf (after_kernel k s) = displayNodeOf s"
  by (simp_all add: after_kernel_def split: option.splits list.splits)

lemma after_kernel_trace:
  "trace (after_kernel k s) =
     trace s @ (case k of Some (c # cs) \<Rightarrow> []
                | _ \<Rightarrow> [LogWarning ''Convolution kernel is unknown, STANDARD will be used.''])"
  by (simp add: after_kernel_def split: option.splits list.splits)

lemma convolutionKernel_Inl:
  "fst (convolutionKernelFromVolumeNode h vol s) = Inl e \<Longrightarrow> e = IndexError"
  by (auto simp add: convolutionKernelFromVolumeNode_def split: option.splits list.splits if_splits)

lemma process_Inl:
  assumes "convolutionKernelFromVolumeNode h vol (logging_info ''Processing started'' s) = (Inl e, s2)"
  shows "process h (Some vol) (Some seed) (Some out) s = (Some e, s2)"
  using assms by (simp add: process_def)

lemma process_success:
  assumes ok: "fst (process h (Some vol) (Some seed) (Some out) s) = None"
  obtains k s2 x rest where
    "convolutionKernelFromVolumeNode h vol (logging_info ''Processing started'' s) = (Inr k, s2)"
    "segments (segmentationOf (before_tag h vol seed out (chosen_kernel k) (after_kernel k s2)) out)
       = x # rest"
    "process h (Some vol) (Some seed) (Some out) s =
       (None, logging_info (''Processing completed in '' @ elapsedSeconds h @ '' seconds'')
          (RemoveNode (uniqueID ''vtkMRMLLabelMapVolumeNode'' (mrmlScene s2))
             (SetTag out (fst x) (terminologyEntryTagName h) trachea_terminology
                (before_tag h vol seed out (chosen_kernel k) (after_kernel k s2)))))"
proof -
  obtain r s2 where c: "convolutionKernelFromVolumeNode h vol (logging_info ''Processing started'' s) = (r, s2)"
    by (cases "convolutionKernelFromVolumeNode h vol (logging_info ''Processing started'' s)")
  show thesis
  proof (cases r)
    case (Inl e)
    with c ok process_Inl[of h vol s e s2 seed out] show thesis by simp
  next
    case (Inr k)
    let ?b = "before_tag h vol seed out (chosen_kernel k) (after_kernel k s2)"
    from c Inr have st: "process h (Some vol) (Some seed) (Some out) s =
         tag_and_finish h (uniqueID ''vtkMRMLLabelMapVolumeNode'' (mrmlScene s2)) out ?b"
      by (simp add: process_steps)
    show thesis
    proof (cases "segments (segmentationOf ?b out)")
      case Nil
      with st ok show thesis by (simp add: tag_and_finish_cases(1))
    next
      case (Cons x rest)
      with st c Inr that[of k s2 x rest] show thesis
        by (simp add: tag_and_finish_cases(2))
    qed
  qed
qed

section \<open>What \<^verbatim>\<open>split()\<close> returns\<close>

text \<open>
  The result is empty exactly for a string of whitespace; otherwise its first element is
  the run of non-whitespace characters that follows the leading whitespace.
\<close>

lemma split_from_word:
  "cur \<noteq> [] \<Longrightarrow>
   split_from cur cs =
     (cur @ takeWhile (\<lambda>c. \<not> isspace c) cs) # split_from [] (dropWhile (\<lambda>c. \<not> isspace c) cs)"
proof (induction cs arbitrary: cur)
  case Nil
  then show ?case by simp
next
  case (Cons c cs)
  show ?case
  proof (cases "isspace c")
    case True
    with Cons.prems show ?thesis by simp
  next
    case False
    with Cons.IH[of "cur @ [c]"] show ?thesis by simp
  qed
qed

lemma split_from_skip: "split_from [] cs = split_from [] (dropWhile isspace cs)"
  by (induction cs) simp_all

lemma split_from_first:
  "\<not> isspace c \<Longrightarrow>
   split_from [] (c # cs) =
     (c # takeWhile (\<lambda>c. \<not> isspace c) cs) # split_from [] (dropWhile (\<lambda>c. \<not> isspace c) cs)"
  using split_from_word[of "[c]" cs] by simp

lemma str_split_cases:
  "(\<forall>c\<in>set s. isspace c) \<and> str_split s = []
   \<or> (\<not> (\<forall>c\<in>set s. isspace c)
      \<and> (\<exists>rest. str_split s = takeWhile (\<lambda>c. \<not> isspace c) (dropWhile isspace s) # rest))"
proof (cases "dropWhile isspace s")
  case Nil
  then have "\<forall>c\<in>set s. isspace c" by (simp add: dropWhile_eq_Nil_conv)
  moreover have "str_split s = []"
  proof -
    have "split_from [] s = split_from [] (dropWhile isspace s)" by (rule split_from_skip)
    also have "\<dots> = []" unfolding Nil by simp
    finally show ?thesis by (simp add: str_split_def)
  qed
  ultimately show ?thesis by simp
next
  case (Cons c cs)
  then have c: "\<not> isspace c"
    using hd_dropWhile[of isspace s] by auto
  from Cons have "dropWhile isspace s \<noteq> []" by simp
  then have ns: "\<not> (\<forall>c\<in>set s. isspace c)" by (simp add: dropWhile_eq_Nil_conv)
  have "split_from [] s = split_from [] (dropWhile isspace s)" by (rule split_from_skip)
  then have "str_split s = split_from [] (c # cs)"
    unfolding Cons by (simp add: str_split_def)
  also have "\<dots> = (c # takeWhile (\<lambda>c. \<not> isspace c) cs)
                     # split_from [] (dropWhile (\<lambda>c. \<not> isspace c) cs)"
    using c by (rule split_from_first)
  finally show ?thesis using ns c by (simp add: Cons)
qed

lemma str_split_Nil_iff: "str_split s = [] \<longleftrightarrow> (\<forall>c\<in>set s. isspace c)"
  using str_split_cases[of s] by auto

lemma str_split_first:
  "str_split s = uid # rest \<Longrightarrow> uid = takeWhile (\<lambda>c. \<not> isspace c) (dropWhile isspace s)"
  using str_split_cases[of s] by auto

section \<open>Evaluation at the concrete inputs\<close>

lemma str_split_examples:
  "str_split ''1.2.840.1 1.2.840.2'' = [''1.2.840.1'', ''1.2.840.2'']"
  "str_split '' '' = []"
  "str_split [CHR 0xA0] = []"
  "str_split (''1.2'' @ [CHR 0x85] @ ''3.4'') = [''1.2'', ''3.4'']"
  by (simp_all add: str_split_def isspace_def)

section \<open>AirwaySegmentationLogic: the kernel lookup and process\<close>

text \<open>
  C5, as stated, fails: a present \<^verbatim>\<open>DICOM.instanceUIDs\<close> attribute does not
  always lead to a lookup. When it holds a single blank there is no first instance UID and
  \<^verbatim>\<open>instUIDs.split()[0]\<close> raises IndexError; when it is the empty string the
  function returns None without consulting the DICOM database.
\<close>

theorem lookup_with_present_attribute_fails:
  "attributes (scene_with_uids (Some '' '')) vol1 ''DICOM.instanceUIDs'' = Some '' ''
   \<and> convolutionKernelFromVolumeNode (host_with [170] (0, 0, 0)) vol1 (scene_with_uids (Some '' ''))
       = (Inl IndexError, scene_with_uids (Some '' ''))
   \<and> attributes (scene_with_uids (Some [])) vol1 ''DICOM.instanceUIDs'' = Some []
   \<and> convolutionKernelFromVolumeNode (host_with [170] (0, 0, 0)) vol1 (scene_with_uids (Some []))
       = (Inr None, scene_with_uids (Some []))"
  by (simp add: convolutionKernelFromVolumeNode_def scene_with_uids_def str_split_examples)

text \<open>
  C5, amended. \<^verbatim>\<open>convolutionKernelFromVolumeNode\<close> reads the volume's
  \<^verbatim>\<open>DICOM.instanceUIDs\<close> attribute. When the attribute is absent or the empty
  string it returns None and the DICOM database is not consulted: the state, with its
  trace, is unchanged. When the attribute is not empty and holds whitespace only, it raises
  IndexError, again without a lookup. In every other case it takes the first
  whitespace-separated instance UID (the non-whitespace characters that follow the leading
  whitespace), resolves it to a file by \<^verbatim>\<open>fileForInstance\<close> and returns the
  file's value for tag (0018,1210); these two lookups, in this order, are all that is added
  to the trace.
\<close>

theorem convolutionKernelFromVolumeNode_cases:
  "(attributes s vol ''DICOM.instanceUIDs'' = None
      \<or> attributes s vol ''DICOM.instanceUIDs'' = Some [] \<longrightarrow>
      convolutionKernelFromVolumeNode h vol s = (Inr None, s))
   \<and> (\<forall>instUIDs.
        attributes s vol ''DICOM.instanceUIDs'' = Some instUIDs \<and> instUIDs \<noteq> []
          \<and> (\<forall>c\<in>set instUIDs. isspace c) \<longrightarrow>
        convolutionKernelFromVolumeNode h vol s = (Inl IndexError, s))
   \<and> (\<forall>instUIDs uid.
        attributes s vol ''DICOM.instanceUIDs'' = Some instUIDs
          \<and> \<not> (\<forall>c\<in>set instUIDs. isspace c)
          \<and> uid = takeWhile (\<lambda>c. \<not> isspace c) (dropWhile isspace instUIDs) \<longrightarrow>
        convolutionKernelFromVolumeNode h vol s =
          (Inr (Some (fileValue h (fileForInstance h uid) ''0018,1210'')),
           s\<lparr>trace := trace s @ [FileForInstance uid,
                                  FileValue (fileForInstance h uid) ''0018,1210'']\<rparr>))"
proof (intro conjI allI impI)
  assume "attributes s vol ''DICOM.instanceUIDs'' = None
            \<or> attributes s vol ''DICOM.instanceUIDs'' = Some []"
  then show "convolutionKernelFromVolumeNode h vol s = (Inr None, s)"
    by (auto simp add: convolutionKernelFromVolumeNode_def)
next
  fix instUIDs
  assume a: "attributes s vol ''DICOM.instanceUIDs'' = Some instUIDs \<and> instUIDs \<noteq> []
               \<and> (\<forall>c\<in>set instUIDs. isspace c)"
  then have "str_split instUIDs = []" by (simp add: str_split_Nil_iff)
  with a show "convolutionKernelFromVolumeNode h vol s = (Inl IndexError, s)"
    by (simp add: convolutionKernelFromVolumeNode_def)
next
  fix instUIDs uid
  assume a: "attributes s vol ''DICOM.instanceUIDs'' = Some instUIDs
               \<and> \<not> (\<forall>c\<in>set instUIDs. isspace c)
               \<and> uid = takeWhile (\<lambda>c. \<not> isspace c) (dropWhile isspace instUIDs)"
  then obtain rest where sp: "str_split instUIDs = uid # rest"
    using str_split_cases[of instUIDs] by auto
  from a have "instUIDs \<noteq> []" by auto
  with a sp show "convolutionKernelFromVolumeNode h vol s =
          (Inr (Some (fileValue h (fileForInstance h uid) ''0018,1210'')),
           s\<lparr>trace := trace s @ [FileForInstance uid,
                                  FileValue (fileForInstance h uid) ''0018,1210'']\<rparr>)"
    by (simp add: convolutionKernelFromVolumeNode_def)
qed

theorem convolutionKernelFromVolumeNode_cases_witness:
  "attributes (scene_with_uids None) vol1 ''DICOM.instanceUIDs'' = None
   \<and> convolutionKernelFromVolumeNode (host_with [170] (0, 0, 0)) vol1 (scene_with_uids None)
       = (Inr None, scene_with_uids None)
   \<and> attributes (scene_with_uids (Some [CHR 0xA0])) vol1 ''DICOM.instanceUIDs'' = Some [CHR 0xA0]
   \<and> isspace (CHR 0xA0)
   \<and> convolutionKernelFromVolumeNode (host_with [170] (0, 0, 0)) vol1
        (scene_with_uids (Some [CHR 0xA0]))
       = (Inl IndexError, scene_with_uids (Some [CHR 0xA0]))
   \<and> attributes (scene_with_uids (Some '' 1.2.840.1 1.2.840.2'')) vol1 ''DICOM.instanceUIDs''
       = Some '' 1.2.840.1 1.2.840.2''
   \<and> \<not> isspace CHR ''1''
   \<and> takeWhile (\<lambda>c. \<not> isspace c) (dropWhile isspace '' 1.2.840.1 1.2.840.2'') = ''1.2.840.1''
   \<and> fst (convolutionKernelFromVolumeNode (host_with [170] (0, 0, 0)) vol1
             (scene_with_uids (Some '' 1.2.840.1 1.2.840.2''))) = Inr (Some ''B70f'')
   \<and> trace (snd (convolutionKernelFromVolumeNode (host_with [170] (0, 0, 0)) vol1
             (scene_with_uids (Some '' 1.2.840.1 1.2.840.2''))))
       = [FileForInstance ''1.2.840.1'', FileValue ''/dicom/1.2.840.1'' ''0018,1210'']"
proof -
  let ?h = "host_with [170] (0, 0, 0)"
  let ?u = "'' 1.2.840.1 1.2.840.2''"
  have a: "attributes (scene_with_uids u) vol1 ''DICOM.instanceUIDs'' = u" for u
    by (simp add: scene_with_uids_def)
  have w: "\<forall>c\<in>set [CHR 0xA0]. isspace c"
    "\<not> (\<forall>c\<in>set ?u. isspace c)"
    "takeWhile (\<lambda>c. \<not> isspace c) (dropWhile isspace ?u) = ''1.2.840.1''"
    by (simp_all add: isspace_def)
  have f: "fileForInstance ?h uid = ''/dicom/'' @ uid"
    "fileValue ?h fl ''0018,1210'' = ''B70f''" for uid fl
    by (simp_all add: host_with_def)
  have r1: "convolutionKernelFromVolumeNode ?h vol1 (scene_with_uids None)
              = (Inr None, scene_with_uids None)"
    using convolutionKernelFromVolumeNode_cases[of "scene_with_uids None" vol1 ?h]
    by (simp only: a simp_thms)
  have r2: "convolutionKernelFromVolumeNode ?h vol1 (scene_with_uids (Some [CHR 0xA0]))
              = (Inl IndexError, scene_with_uids (Some [CHR 0xA0]))"
  proof -
    have "attributes (scene_with_uids (Some [CHR 0xA0])) vol1 ''DICOM.instanceUIDs''
            = Some [CHR 0xA0] \<and> [CHR 0xA0] \<noteq> [] \<and> (\<forall>c\<in>set [CHR 0xA0]. isspace c)"
      using w(1) by (simp only: a) simp
    with convolutionKernelFromVolumeNode_cases[of "scene_with_uids (Some [CHR 0xA0])" vol1 ?h]
    show ?thesis by blast
  qed
  have r3: "convolutionKernelFromVolumeNode ?h vol1 (scene_with_uids (Some ?u))
              = (Inr (Some (fileValue ?h (fileForInstance ?h ''1.2.840.1'') ''0018,1210'')),
                 (scene_with_uids (Some ?u))\<lparr>trace := trace (scene_with_uids (Some ?u))
                    @ [FileForInstance ''1.2.840.1'',
                       FileValue (fileForInstance ?h ''1.2.840.1'') ''0018,1210'']\<rparr>)"
  proof -
    have "attributes (scene_with_uids (Some ?u)) vol1 ''DICOM.instanceUIDs'' = Some ?u
            \<and> \<not> (\<forall>c\<in>set ?u. isspace c)
            \<and> ''1.2.840.1'' = takeWhile (\<lambda>c. \<not> isspace c) (dropWhile isspace ?u)"
      using w(2,3) by (simp only: a) simp
    with convolutionKernelFromVolumeNode_cases[of "scene_with_uids (Some ?u)" vol1 ?h]
    show ?thesis by blast
  qed
  have tr: "trace (scene_with_uids u) = []" for u
    by (simp add: scene_with_uids_def)
  show ?thesis
    by (simp add: a r1 r2 r3 f tr isspace_def)
qed

lemma conv_eval:
  "convolutionKernelFromVolumeNode (host_with f c) vol1
     ((scene_with_uids (Some ''1.2.840.1 1.2.840.2''))\<lparr>trace := t\<rparr>)
   = (Inr (Some ''B70f''),
      (scene_with_uids (Some ''1.2.840.1 1.2.840.2''))
        \<lparr>trace := t @ [FileForInstance ''1.2.840.1'', FileValue ''/dicom/1.2.840.1'' ''0018,1210'']\<rparr>)"
  "convolutionKernelFromVolumeNode (host_with f c) vol1 ((scene_with_uids None)\<lparr>trace := t\<rparr>)
   = (Inr None, (scene_with_uids None)\<lparr>trace := t\<rparr>)"
  "convolutionKernelFromVolumeNode (host_with f c) vol1 ((scene_with_uids (Some '' ''))\<lparr>trace := t\<rparr>)
   = (Inl IndexError, (scene_with_uids (Some '' ''))\<lparr>trace := t\<rparr>)"
  by (simp_all add: convolutionKernelFromVolumeNode_def scene_with_uids_def host_with_def
      str_split_examples)

lemma conv_eval0:
  "fst (convolutionKernelFromVolumeNode (host_with f c) vol1
     (scene_with_uids (Some ''1.2.840.1 1.2.840.2''))) = Inr (Some ''B70f'')"
  "fst (convolutionKernelFromVolumeNode (host_with f c) vol1 (scene_with_uids None)) = Inr None"
  by (simp_all add: convolutionKernelFromVolumeNode_def scene_with_uids_def host_with_def
      str_split_examples)

lemma scene_with_uids_sel [simp]:
  "mrmlScene (scene_with_uids u) = [vol1, seed1, seg1]"
  "displayNodeOf (scene_with_uids u) n = None"
  "trace (scene_with_uids u) = []"
  "segments (segmentationOf (scene_with_uids u) n) = [old_segment]"
  by (simp_all add: scene_with_uids_def)

lemma host_with_sel [simp]:
  "airwaysegmentationcli (host_with f c) p = f"
  "importLabelmap (host_with f c) lm = (if 170 \<in> set lm then [airway_segment] else [])"
  "terminologyEntryTagName (host_with f c) = ''TerminologyEntry''"
  "getSegmentCenter (host_with f c) sg i = c"
  by (simp_all add: host_with_def)

lemma uniqueID_example:
  "uniqueID ''vtkMRMLLabelMapVolumeNode'' [vol1, seed1, seg1] = NodeID ''vtkMRMLLabelMapVolumeNode'' 1"
  "uniqueID ''vtkMRMLLabelMapVolumeDisplayNode'' [vol1, seed1, seg1]
     = NodeID ''vtkMRMLLabelMapVolumeDisplayNode'' 1"
  "uniqueID ''vtkMRMLSegmentationDisplayNode'' [vol1, seed1, seg1]
     = NodeID ''vtkMRMLSegmentationDisplayNode'' 1"
  by (simp_all add: uniqueID_def vol1_def seed1_def seg1_def)

text \<open>Runs of \<^verbatim>\<open>process\<close> at the concrete inputs.\<close>

lemma process_blank_uids:
  "process (host_with f c) (Some vol1) (Some seed1) (Some seg1) (scene_with_uids (Some '' ''))
   = (Some IndexError, (scene_with_uids (Some '' ''))\<lparr>trace := [LogInfo ''Processing started'']\<rparr>)"
  using conv_eval(3)[of f c "[LogInfo ''Processing started'']"]
  by (simp add: process_Inl logging_info_def)

lemma process_empty_result:
  "fst (process (host_with [] c) (Some vol1) (Some seed1) (Some seg1) (scene_with_uids None))
     = Some AttributeError"
  "mrmlScene (snd (process (host_with [] c) (Some vol1) (Some seed1) (Some seg1) (scene_with_uids None)))
     = [vol1, seed1, seg1, NodeID ''vtkMRMLLabelMapVolumeNode'' 1,
        NodeID ''vtkMRMLLabelMapVolumeDisplayNode'' 1, NodeID ''vtkMRMLSegmentationDisplayNode'' 1]"
  using conv_eval(2)[of "[]" c "[LogInfo ''Processing started'']"]
  by (simp_all add: process_steps[where k=None] logging_info_def tag_and_finish_cases(1)
      before_tag_frame before_tag_scene uniqueID_example)

lemma process_good_run:
  "fst (process (host_with [0, 170] c) (Some vol1) (Some seed1) (Some seg1) (scene_with_uids u)) = None"
  if "u = None \<or> u = Some ''1.2.840.1 1.2.840.2''"
proof -
  from that obtain k s2 where
    "convolutionKernelFromVolumeNode (host_with [0, 170] c) vol1
       (logging_info ''Processing started'' (scene_with_uids u)) = (Inr k, s2)"
    using conv_eval(1,2)[of "[0, 170]" c "[LogInfo ''Processing started'']"]
    by (auto simp add: logging_info_def)
  then show ?thesis
    by (simp add: process_steps before_tag_frame
        tag_and_finish_cases(2)[where x=airway_segment and rest="[]"])
qed


text \<open>
  C2, as stated, fails: a volume node whose \<^verbatim>\<open>DICOM.instanceUIDs\<close> attribute
  holds a single blank passes the entry check of \<^verbatim>\<open>process\<close>, which then raises
  IndexError in the kernel lookup and never runs the executable.
\<close>

theorem process_blank_uids_no_cli_run:
  "fst (process (host_with [0, 170] (0, 0, 0)) (Some vol1) (Some seed1) (Some seg1)
          (scene_with_uids (Some '' ''))) = Some IndexError
   \<and> cliRuns (trace (snd (process (host_with [0, 170] (0, 0, 0)) (Some vol1) (Some seed1) (Some seg1)
          (scene_with_uids (Some '' ''))))) = []"
  by (simp add: process_blank_uids)

text \<open>
  C2, amended. For every input volume, seed and output segmentation that are present and
  for which the kernel lookup returns (a value \<open>k\<close>, possibly None),
  \<^verbatim>\<open>process\<close> invokes the external executable exactly once: the runs in the
  final trace are those of the initial trace and one more, whose dictionary has exactly the
  five keys inputVolume (the input volume's ID), reconstructionKernelType (\<open>k\<close> when it is a
  non-empty string, otherwise STANDARD), label (the ID of a label-map node that was not in
  the scene before), seed (the seed node's ID) and labelValue (170).
\<close>

theorem process_invokes_cli_once:
  assumes "fst (convolutionKernelFromVolumeNode h vol s) = Inr k"
  shows "cliRuns (trace (snd (process h (Some vol) (Some seed) (Some out) s))) =
           cliRuns (trace s) @
             [[(''inputVolume'', PNodeID vol),
               (''reconstructionKernelType'',
                  PString (case k of Some (c # cs) \<Rightarrow> c # cs | _ \<Rightarrow> ''STANDARD'')),
               (''label'', PNodeID (uniqueID ''vtkMRMLLabelMapVolumeNode'' (mrmlScene s))),
               (''seed'', PNodeID seed),
               (''labelValue'', PInt 170)]]
         \<and> uniqueID ''vtkMRMLLabelMapVolumeNode'' (mrmlScene s) \<notin> set (mrmlScene s)"
proof -
  from assms obtain s2 where
    c: "convolutionKernelFromVolumeNode h vol (logging_info ''Processing started'' s) = (Inr k, s2)"
    by (rule conv_pair)
  from convolutionKernel_trace[of h vol "logging_info ''Processing started'' s"] c
  obtain q where q: "trace s2 = trace s @ LogInfo ''Processing started'' # q" "cliRuns q = []"
    by auto
  have sc: "mrmlScene s2 = mrmlScene s"
    using convolutionKernel_frame(1)[of h vol "logging_info ''Processing started'' s"] c by simp
  let ?b = "before_tag h vol seed out (chosen_kernel k) (after_kernel k s2)"
  have tb: "cliRuns (trace ?b) = cliRuns (trace s) @
      [cli_parameters vol (chosen_kernel k) (uniqueID ''vtkMRMLLabelMapVolumeNode'' (mrmlScene s)) seed]"
    using q sc by (simp add: before_tag_frame after_kernel_trace split: option.splits list.splits)
  have "cliRuns (trace (snd (tag_and_finish h tmp out ?b))) = cliRuns (trace ?b)" for tmp
    by (cases "segments (segmentationOf ?b out)") (simp_all add: tag_and_finish_cases)
  with tb c show ?thesis
    by (simp add: process_steps uniqueID_fresh cli_parameters_def chosen_kernel_def)
qed

theorem process_invokes_cli_once_witness:
  "fst (convolutionKernelFromVolumeNode (host_with [0, 170] (0, 0, 0)) vol1
          (scene_with_uids (Some ''1.2.840.1 1.2.840.2''))) = Inr (Some ''B70f'')
   \<and> cliRuns (trace (snd (process (host_with [0, 170] (0, 0, 0)) (Some vol1) (Some seed1) (Some seg1)
                            (scene_with_uids (Some ''1.2.840.1 1.2.840.2''))))) =
       [[(''inputVolume'', PNodeID vol1),
         (''reconstructionKernelType'', PString ''B70f''),
         (''label'', PNodeID (NodeID ''vtkMRMLLabelMapVolumeNode'' 1)),
         (''seed'', PNodeID seed1),
         (''labelValue'', PInt 170)]]"
  using process_invokes_cli_once[OF conv_eval0(1)[of "[0, 170]" "(0, 0, 0)"], of seed1 seg1]
  by (simp add: conv_eval0 uniqueID_example)

text \<open>
  C3, as stated, fails: with all three inputs present \<^verbatim>\<open>process\<close> still
  raises when the executable leaves the label map empty (the import yields no segment and
  \<^verbatim>\<open>SetTag\<close> is called on None), and by then the scene holds the temporary
  label-map node.
\<close>

theorem process_raises_with_all_inputs:
  "fst (process (host_with [] (0, 0, 0)) (Some vol1) (Some seed1) (Some seg1) (scene_with_uids None))
     = Some AttributeError
   \<and> mrmlScene (snd (process (host_with [] (0, 0, 0)) (Some vol1) (Some seed1) (Some seg1)
                        (scene_with_uids None)))
     \<noteq> mrmlScene (scene_with_uids None)"
  by (simp add: process_empty_result)

lemma process_exn_cases:
  "fst (process h (Some vol) (Some seed) (Some out) s) \<in> {None, Some IndexError, Some AttributeError}"
proof -
  obtain r s2 where c: "convolutionKernelFromVolumeNode h vol (logging_info ''Processing started'' s) = (r, s2)"
    by (cases "convolutionKernelFromVolumeNode h vol (logging_info ''Processing started'' s)")
  show ?thesis
  proof (cases r)
    case (Inl e)
    with c convolutionKernel_Inl[of h vol "logging_info ''Processing started'' s" e]
    show ?thesis by (simp add: process_Inl)
  next
    case (Inr k)
    let ?b = "before_tag h vol seed out (chosen_kernel k) (after_kernel k s2)"
    show ?thesis using c Inr
      by (cases "segments (segmentationOf ?b out)") (simp_all add: process_steps tag_and_finish_cases)
  qed
qed

text \<open>
  C3, amended. \<^verbatim>\<open>process\<close> raises its ValueError if and only if at least one
  of the three required inputs is missing at entry, and in that case it raises before any
  other action: the state is returned unchanged. (Other exceptions can arise later with all
  inputs present.)
\<close>

theorem process_ValueError_iff_missing_input:
  "(fst (process h inputVolume inputSeed outputSegmentation s) =
      Some (ValueError ''Input volume or seed or output segmentation is invalid''))
     = (inputVolume = None \<or> inputSeed = None \<or> outputSegmentation = None)
   \<and> (inputVolume = None \<or> inputSeed = None \<or> outputSegmentation = None \<longrightarrow>
        snd (process h inputVolume inputSeed outputSegmentation s) = s)"
proof (cases "inputVolume = None \<or> inputSeed = None \<or> outputSegmentation = None")
  case True
  then show ?thesis by (auto simp add: process_def split: option.splits)
next
  case False
  then obtain vol seed out where
    "inputVolume = Some vol" "inputSeed = Some seed" "outputSegmentation = Some out" by auto
  with process_exn_cases[of h vol seed out s] show ?thesis by auto
qed

theorem process_ValueError_iff_missing_input_witness:
  "process (host_with [0, 170] (0, 0, 0)) (Some vol1) None (Some seg1) (scene_with_uids None) =
     (Some (ValueError ''Input volume or seed or output segmentation is invalid''),
      scene_with_uids None)"
  using process_ValueError_iff_missing_input[of "host_with [0, 170] (0, 0, 0)" "Some vol1" None
      "Some seg1" "scene_with_uids None"]
  by (simp add: prod_eq_iff)

text \<open>
  C4. When the kernel lookup returns a falsy value (None or the empty string),
  \<^verbatim>\<open>process\<close> does not abort: it logs the warning and then runs the external
  executable with reconstructionKernelType bound to STANDARD. In the trace the warning is
  immediately followed by that run, which is the only run \<^verbatim>\<open>process\<close> adds.
\<close>

theorem process_falls_back_to_STANDARD:
  assumes "fst (convolutionKernelFromVolumeNode h vol s) = Inr k"
    and "k = None \<or> k = Some []"
  shows "\<exists>before after.
           trace (snd (process h (Some vol) (Some seed) (Some out) s)) =
             trace s @ before @
               [LogWarning ''Convolution kernel is unknown, STANDARD will be used.'',
                CliRun [(''inputVolume'', PNodeID vol),
                        (''reconstructionKernelType'', PString ''STANDARD''),
                        (''label'', PNodeID (uniqueID ''vtkMRMLLabelMapVolumeNode'' (mrmlScene s))),
                        (''seed'', PNodeID seed),
                        (''labelValue'', PInt 170)]] @ after
           \<and> cliRuns before = [] \<and> cliRuns after = []"
proof -
  from assms(1) obtain s2 where
    c: "convolutionKernelFromVolumeNode h vol (logging_info ''Processing started'' s) = (Inr k, s2)"
    by (rule conv_pair)
  from convolutionKernel_trace[of h vol "logging_info ''Processing started'' s"] c
  obtain q where q: "trace s2 = trace s @ LogInfo ''Processing started'' # q" "cliRuns q = []"
    by auto
  have sc: "mrmlScene s2 = mrmlScene s"
    using convolutionKernel_frame(1)[of h vol "logging_info ''Processing started'' s"] c by simp
  let ?b = "before_tag h vol seed out (chosen_kernel k) (after_kernel k s2)"
  let ?w = "LogWarning ''Convolution kernel is unknown, STANDARD will be used.''"
  let ?run = "CliRun [(''inputVolume'', PNodeID vol),
                        (''reconstructionKernelType'', PString ''STANDARD''),
                        (''label'', PNodeID (uniqueID ''vtkMRMLLabelMapVolumeNode'' (mrmlScene s))),
                        (''seed'', PNodeID seed),
                        (''labelValue'', PInt 170)]"
  have tb: "trace ?b = trace s @ (LogInfo ''Processing started'' # q) @ [?w, ?run]"
    using q sc assms(2)
    by (auto simp add: before_tag_frame after_kernel_trace cli_parameters_def chosen_kernel_def)
  have "\<exists>after. trace (snd (tag_and_finish h tmp out ?b)) = trace ?b @ after \<and> cliRuns after = []"
    for tmp
    by (cases "segments (segmentationOf ?b out)") (simp_all add: tag_and_finish_cases)
  then obtain after where
    "trace (snd (process h (Some vol) (Some seed) (Some out) s)) = trace ?b @ after"
    "cliRuns after = []"
    using c by (auto simp add: process_steps)
  with tb q(2) show ?thesis
    by (intro exI[of _ "LogInfo ''Processing started'' # q"] exI[of _ after]) simp
qed

theorem process_falls_back_to_STANDARD_witness:
  "fst (convolutionKernelFromVolumeNode (host_with [0, 170] (0, 0, 0)) vol1 (scene_with_uids None))
     = Inr None
   \<and> (\<exists>before after.
         trace (snd (process (host_with [0, 170] (0, 0, 0)) (Some vol1) (Some seed1) (Some seg1)
                       (scene_with_uids None))) =
           before @
             [LogWarning ''Convolution kernel is unknown, STANDARD will be used.'',
              CliRun [(''inputVolume'', PNodeID vol1),
                      (''reconstructionKernelType'', PString ''STANDARD''),
                      (''label'', PNodeID (NodeID ''vtkMRMLLabelMapVolumeNode'' 1)),
                      (''seed'', PNodeID seed1),
                      (''labelValue'', PInt 170)]] @ after
         \<and> cliRuns before = [] \<and> cliRuns after = [])"
  using process_falls_back_to_STANDARD[OF conv_eval0(2)[of "[0, 170]" "(0, 0, 0)"], of seed1 seg1]
  by (simp add: conv_eval0 uniqueID_example)

text \<open>
  The scene after a successful run on an output segmentation of the scene: the label-map
  node goes with its display node, and what remains of the run is the display node that
  the import created for the segmentation, if it had none.
\<close>

lemma process_success_scene:
  assumes "fst (process h (Some vol) (Some seed) (Some out) s) = None"
    and "out \<in> set (mrmlScene s)"
  shows "mrmlScene (snd (process h (Some vol) (Some seed) (Some out) s)) =
           mrmlScene s @ (case displayNodeOf s out of
                            None \<Rightarrow> [uniqueID ''vtkMRMLSegmentationDisplayNode'' (mrmlScene s)]
                          | Some d \<Rightarrow> [])"
proof -
  let ?tmp = "uniqueID ''vtkMRMLLabelMapVolumeNode'' (mrmlScene s)"
  let ?tmpD = "uniqueID ''vtkMRMLLabelMapVolumeDisplayNode'' (mrmlScene s)"
  let ?segD = "uniqueID ''vtkMRMLSegmentationDisplayNode'' (mrmlScene s)"
  from assms(1) obtain k s2 x rest where
    c: "convolutionKernelFromVolumeNode h vol (logging_info ''Processing started'' s) = (Inr k, s2)"
    and sg: "segments (segmentationOf (before_tag h vol seed out (chosen_kernel k) (after_kernel k s2)) out)
       = x # rest"
    and p: "process h (Some vol) (Some seed) (Some out) s =
       (None, logging_info (''Processing completed in '' @ elapsedSeconds h @ '' seconds'')
          (RemoveNode (uniqueID ''vtkMRMLLabelMapVolumeNode'' (mrmlScene s2))
             (SetTag out (fst x) (terminologyEntryTagName h) trachea_terminology
                (before_tag h vol seed out (chosen_kernel k) (after_kernel k s2)))))"
    by (rule process_success)
  have sc: "mrmlScene s2 = mrmlScene s" "displayNodeOf s2 = displayNodeOf s"
    using convolutionKernel_frame(1,5)[of h vol "logging_info ''Processing started'' s"] c
    by simp_all
  have o: "out \<in> set (mrmlScene (after_kernel k s2))"
    using assms(2) sc by simp
  have flt: "filter (\<lambda>m. m \<noteq> ?tmp \<and> ?tmpD \<noteq> m) (mrmlScene s) = mrmlScene s"
    using uniqueID_fresh[of "''vtkMRMLLabelMapVolumeNode''" "mrmlScene s"]
      uniqueID_fresh[of "''vtkMRMLLabelMapVolumeDisplayNode''" "mrmlScene s"]
    by (auto simp add: filter_id_conv)
  have cl: "?segD \<noteq> ?tmp" "?tmpD \<noteq> ?segD" "?tmpD \<noteq> ?tmp"
    by (simp_all add: uniqueID_class)
  let ?b = "before_tag h vol seed out (chosen_kernel k) (after_kernel k s2)"
  have b1: "mrmlScene ?b = mrmlScene s @ [?tmp, ?tmpD]
              @ (case displayNodeOf s out of None \<Rightarrow> [?segD] | Some d \<Rightarrow> [])"
    using before_tag_scene(1)[OF o, of h vol seed "chosen_kernel k"]
    by (simp add: sc cong: option.case_cong)
  have b2: "displayNodeOf ?b ?tmp = Some ?tmpD"
    using before_tag_scene(2)[OF o, of h vol seed "chosen_kernel k"] by (simp add: sc)
  have "mrmlScene (snd (process h (Some vol) (Some seed) (Some out) s)) =
          filter (\<lambda>m. m \<noteq> ?tmp \<and> ?tmpD \<noteq> m) (mrmlScene ?b)"
    by (simp add: p sc b2)
  also have "\<dots> = mrmlScene s @ (case displayNodeOf s out of None \<Rightarrow> [?segD] | Some d \<Rightarrow> [])"
    using flt cl by (simp add: b1 split: option.splits)
  finally show ?thesis .
qed

text \<open>
  C7, as stated, fails: after a successful run on a segmentation node that has no display
  node yet, the scene holds one node more than before, the display node that the import
  created for the segmentation; it is not part of the imported content.
\<close>

theorem process_leaves_display_node:
  "fst (process (host_with [0, 170] (0, 0, 0)) (Some vol1) (Some seed1) (Some seg1)
          (scene_with_uids None)) = None
   \<and> mrmlScene (scene_with_uids None) = [vol1, seed1, seg1]
   \<and> mrmlScene (snd (process (host_with [0, 170] (0, 0, 0)) (Some vol1) (Some seed1) (Some seg1)
          (scene_with_uids None)))
       = [vol1, seed1, seg1, NodeID ''vtkMRMLSegmentationDisplayNode'' 1]"
  using process_success_scene[OF process_good_run[of None "(0, 0, 0)"], of]
  by (simp add: process_good_run uniqueID_example)

text \<open>
  C7, amended. After every successful run of \<^verbatim>\<open>process\<close> on an output
  segmentation of the scene, the transient nodes are removed again: the temporary label-map
  node, with the display node created for it, and the command-line module node that the
  synchronous run returned. The scene holds the nodes it held before, in their order, and
  gains no node other than a display node for the output segmentation, which the import
  creates when the segmentation has none.
\<close>

theorem process_removes_transient_nodes:
  assumes "fst (process h (Some vol) (Some seed) (Some out) s) = None"
    and "out \<in> set (mrmlScene s)"
  shows "mrmlScene (snd (process h (Some vol) (Some seed) (Some out) s)) =
           mrmlScene s @ (case GetDisplayNode s out of
                            None \<Rightarrow> [uniqueID ''vtkMRMLSegmentationDisplayNode'' (mrmlScene s)]
                          | Some d \<Rightarrow> [])
    \<and> uniqueID ''vtkMRMLLabelMapVolumeNode'' (mrmlScene s)
        \<notin> set (mrmlScene (snd (process h (Some vol) (Some seed) (Some out) s)))
    \<and> uniqueID ''vtkMRMLLabelMapVolumeDisplayNode'' (mrmlScene s)
        \<notin> set (mrmlScene (snd (process h (Some vol) (Some seed) (Some out) s)))
    \<and> uniqueID ''vtkMRMLCommandLineModuleNode'' (mrmlScene s)
        \<notin> set (mrmlScene (snd (process h (Some vol) (Some seed) (Some out) s)))"
proof -
  have "uniqueID ''vtkMRMLSegmentationDisplayNode'' (mrmlScene s)
          \<noteq> uniqueID ''vtkMRMLLabelMapVolumeNode'' (mrmlScene s)"
    "uniqueID ''vtkMRMLSegmentationDisplayNode'' (mrmlScene s)
          \<noteq> uniqueID ''vtkMRMLLabelMapVolumeDisplayNode'' (mrmlScene s)"
    "uniqueID ''vtkMRMLSegmentationDisplayNode'' (mrmlScene s)
          \<noteq> uniqueID ''vtkMRMLCommandLineModuleNode'' (mrmlScene s)"
    by (simp_all add: uniqueID_class)
  then show ?thesis
    using uniqueID_fresh[of _ "mrmlScene s"]
    by (auto simp add: process_success_scene[OF assms] split: option.splits)
qed

theorem process_removes_transient_nodes_witness:
  "fst (process (host_with [0, 170] (0, 0, 0)) (Some vol1) (Some seed1) (Some seg1)
          (scene_with_uids None)) = None
   \<and> seg1 \<in> set (mrmlScene (scene_with_uids None))
   \<and> GetDisplayNode (scene_with_uids None) seg1 = None
   \<and> mrmlScene (snd (process (host_with [0, 170] (0, 0, 0)) (Some vol1) (Some seed1) (Some seg1)
          (scene_with_uids None)))
       = mrmlScene (scene_with_uids None) @ [NodeID ''vtkMRMLSegmentationDisplayNode'' 1]
   \<and> NodeID ''vtkMRMLLabelMapVolumeNode'' 1
        \<notin> set (mrmlScene (snd (process (host_with [0, 170] (0, 0, 0)) (Some vol1) (Some seed1)
                   (Some seg1) (scene_with_uids None))))"
proof -
  have o: "seg1 \<in> set (mrmlScene (scene_with_uids None))" by simp
  have n: "NodeID ''vtkMRMLLabelMapVolumeNode'' (Suc 0) \<noteq> vol1"
    "NodeID ''vtkMRMLLabelMapVolumeNode'' (Suc 0) \<noteq> seed1"
    "NodeID ''vtkMRMLLabelMapVolumeNode'' (Suc 0) \<noteq> seg1"
    by (simp_all add: vol1_def seed1_def seg1_def)
  show ?thesis
    using process_removes_transient_nodes[OF process_good_run[of None "(0, 0, 0)"] o]
    by (simp add: process_good_run uniqueID_example n)
qed

lemma process_success_segments:
  assumes "fst (process h (Some vol) (Some seed) (Some out) s) = None"
  shows "\<exists>p x rest.
     cliRuns (trace (snd (process h (Some vol) (Some seed) (Some out) s))) = cliRuns (trace s) @ [p]
     \<and> importLabelmap h (airwaysegmentationcli h p) = x # rest
     \<and> segments (segmentationOf (snd (process h (Some vol) (Some seed) (Some out) s)) out) =
         (fst x, (snd x)\<lparr>segment_tags :=
                     (segment_tags (snd x))(terminologyEntryTagName h \<mapsto> trachea_terminology)\<rparr>) # rest"
proof -
  from assms obtain k s2 x rest where
    c: "convolutionKernelFromVolumeNode h vol (logging_info ''Processing started'' s) = (Inr k, s2)"
    and sg: "segments (segmentationOf (before_tag h vol seed out (chosen_kernel k) (after_kernel k s2)) out)
       = x # rest"
    and p: "process h (Some vol) (Some seed) (Some out) s =
       (None, logging_info (''Processing completed in '' @ elapsedSeconds h @ '' seconds'')
          (RemoveNode (uniqueID ''vtkMRMLLabelMapVolumeNode'' (mrmlScene s2))
             (SetTag out (fst x) (terminologyEntryTagName h) trachea_terminology
                (before_tag h vol seed out (chosen_kernel k) (after_kernel k s2)))))"
    by (rule process_success)
  let ?p = "cli_parameters vol (chosen_kernel k)
              (uniqueID ''vtkMRMLLabelMapVolumeNode'' (mrmlScene s2)) seed"
  from convolutionKernel_trace[of h vol "logging_info ''Processing started'' s"] c
  have q: "cliRuns (trace s2) = cliRuns (trace s)"
    by auto
  have runs: "cliRuns (trace (snd (process h (Some vol) (Some seed) (Some out) s)))
                = cliRuns (trace s) @ [?p]"
    using q by (simp add: p before_tag_frame after_kernel_trace split: option.splits list.splits)
  from sg have imp: "importLabelmap h (airwaysegmentationcli h ?p) = x # rest"
    by (simp add: before_tag_frame)
  have "segments (segmentationOf (snd (process h (Some vol) (Some seed) (Some out) s)) out) =
         (fst x, (snd x)\<lparr>segment_tags :=
                     (segment_tags (snd x))(terminologyEntryTagName h \<mapsto> trachea_terminology)\<rparr>) # rest"
    using sg by (simp add: p)
  with runs imp show ?thesis by blast
qed

lemma trachea_terminology_eq:
  "trachea_terminology =
     ''Segmentation category and type - 3D Slicer General Anatomy list~SCT^123037004^Anatomical Structure~SCT^44567001^Trachea~^^~Anatomic codes - DICOM master list~^^~^^''"
  by (simp add: trachea_terminology_def)

text \<open>
  C8. After a successful run the output segmentation has a first segment (index 0), and its
  terminology tag is the fixed string that names the anatomical structure Trachea
  (SCT 44567001), the same for every input.
\<close>

theorem process_tags_first_segment:
  assumes "fst (process h (Some vol) (Some seed) (Some out) s) = None"
  shows "\<exists>segmentId segment rest.
           segments (segmentationOf (snd (process h (Some vol) (Some seed) (Some out) s)) out)
             = (segmentId, segment) # rest
           \<and> segment_tags segment (terminologyEntryTagName h) =
               Some ''Segmentation category and type - 3D Slicer General Anatomy list~SCT^123037004^Anatomical Structure~SCT^44567001^Trachea~^^~Anatomic codes - DICOM master list~^^~^^''"
proof -
  from process_success_segments[OF assms] obtain x rest where
    "segments (segmentationOf (snd (process h (Some vol) (Some seed) (Some out) s)) out) =
         (fst x, (snd x)\<lparr>segment_tags :=
                     (segment_tags (snd x))(terminologyEntryTagName h \<mapsto> trachea_terminology)\<rparr>) # rest"
    by blast
  then show ?thesis
    by (simp add: trachea_terminology_eq)
qed

theorem process_tags_first_segment_witness:
  "fst (process (host_with [0, 170] (0, 0, 0)) (Some vol1) (Some seed1) (Some seg1)
          (scene_with_uids (Some ''1.2.840.1 1.2.840.2''))) = None
   \<and> (\<exists>segmentId segment rest.
           segments (segmentationOf (snd (process (host_with [0, 170] (0, 0, 0)) (Some vol1)
              (Some seed1) (Some seg1) (scene_with_uids (Some ''1.2.840.1 1.2.840.2'')))) seg1)
             = (segmentId, segment) # rest
           \<and> segment_tags segment ''TerminologyEntry'' =
               Some ''Segmentation category and type - 3D Slicer General Anatomy list~SCT^123037004^Anatomical Structure~SCT^44567001^Trachea~^^~Anatomic codes - DICOM master list~^^~^^'')"
  using process_tags_first_segment[OF process_good_run[of "Some ''1.2.840.1 1.2.840.2''" "(0, 0, 0)"]]
  by (simp add: process_good_run)

text \<open>
  C10. \<^verbatim>\<open>process\<close> replaces rather than appends: after a successful run the
  segments of the output segmentation are exactly the segments imported from the label map
  that this run's invocation of the executable produced (the first of them with the
  terminology tag set), whatever the segmentation held before.
\<close>

theorem process_replaces_segments:
  assumes "fst (process h (Some vol) (Some seed) (Some out) s) = None"
  shows "\<exists>p x rest.
     cliRuns (trace (snd (process h (Some vol) (Some seed) (Some out) s))) = cliRuns (trace s) @ [p]
     \<and> importLabelmap h (airwaysegmentationcli h p) = x # rest
     \<and> segments (segmentationOf (snd (process h (Some vol) (Some seed) (Some out) s)) out) =
         (fst x, (snd x)\<lparr>segment_tags :=
                     (segment_tags (snd x))(terminologyEntryTagName h \<mapsto> trachea_terminology)\<rparr>) # rest"
  using assms by (rule process_success_segments)

theorem process_replaces_segments_witness:
  "segments (segmentationOf (scene_with_uids None) seg1) = [old_segment]
   \<and> fst (process (host_with [0, 170] (0, 0, 0)) (Some vol1) (Some seed1) (Some seg1)
          (scene_with_uids None)) = None
   \<and> map fst (segments (segmentationOf (snd (process (host_with [0, 170] (0, 0, 0)) (Some vol1)
              (Some seed1) (Some seg1) (scene_with_uids None))) seg1)) = [''Segment_1'']"
  using process_replaces_segments[OF process_good_run[of None "(0, 0, 0)"]]
  by (auto simp add: process_good_run airway_segment_def)

section \<open>The widget's handlers\<close>

lemma GetNodeReference_frame [simp]:
  "GetNodeReference (w\<lparr>updatingGUIFromParameterNode := b\<rparr>) r = GetNodeReference w r"
  "GetNodeReference (w\<lparr>inputVolumeSelector := x\<rparr>) r = GetNodeReference w r"
  "GetNodeReference (w\<lparr>inputSeedSelector := x\<rparr>) r = GetNodeReference w r"
  "GetNodeReference (w\<lparr>outputSegmentationSelector := x\<rparr>) r = GetNodeReference w r"
  "GetNodeReference (w\<lparr>applyButton_toolTip := t\<rparr>) r = GetNodeReference w r"
  "GetNodeReference (w\<lparr>applyButton_enabled := b\<rparr>) r = GetNodeReference w r"
  by (simp_all add: GetNodeReference_def split: option.splits)

lemma handle_guarded:
  "updatingGUIFromParameterNode w \<Longrightarrow> handle which w = Some w"
  by (subst handle.simps) (simp split: handler.splits option.splits)

lemma handle_no_parameterNode:
  "parameterNode w = None \<Longrightarrow> handle which w = Some w"
  by (subst handle.simps) (simp split: handler.splits option.splits)

lemma handle_UpdateGUI:
  assumes "parameterNode w = Some pn" "\<not> updatingGUIFromParameterNode w"
  shows "handle UpdateGUIFromParameterNode w =
     Some (w\<lparr>inputVolumeSelector := GetNodeReference w ''InputVolume'',
             inputSeedSelector := GetNodeReference w ''InputSeed'',
             outputSegmentationSelector := GetNodeReference w ''OutputSegmentation'',
             applyButton_toolTip :=
               (if GetNodeReference w ''InputVolume'' \<noteq> None \<and> GetNodeReference w ''InputSeed'' \<noteq> None
                then ''Compute airway segmentation'' else ''Select input CT volume and seed point''),
             applyButton_enabled :=
               (GetNodeReference w ''InputVolume'' \<noteq> None \<and> GetNodeReference w ''InputSeed'' \<noteq> None),
             updatingGUIFromParameterNode := False\<rparr>)"
  using assms
  by (subst handle.simps) (simp add: handle_guarded Let_def)

lemma handle_UpdateParameterNode:
  assumes "parameterNode w = Some pn" "\<not> updatingGUIFromParameterNode w"
  shows "handle UpdateParameterNodeFromGUI w =
     (if (pn ''InputVolume'' \<noteq> inputVolumeSelector w
          \<or> pn ''InputSeed'' \<noteq> inputSeedSelector w
          \<or> pn ''OutputVolume'' \<noteq> outputSegmentationSelector w) \<and> observingParameterNode w
      then handle UpdateGUIFromParameterNode
             (w\<lparr>parameterNode := Some (pn(''InputVolume'' := inputVolumeSelector w,
                                            ''InputSeed'' := inputSeedSelector w,
                                            ''OutputVolume'' := outputSegmentationSelector w))\<rparr>)
      else Some (w\<lparr>parameterNode := Some (pn(''InputVolume'' := inputVolumeSelector w,
                                            ''InputSeed'' := inputSeedSelector w,
                                            ''OutputVolume'' := outputSegmentationSelector w))\<rparr>))"
  using assms
  by (subst handle.simps) (simp add: Let_def)

lemma handle_flag_reset:
  assumes "\<not> updatingGUIFromParameterNode w"
  shows "\<exists>w'. handle which w = Some w' \<and> \<not> updatingGUIFromParameterNode w'"
proof (cases "parameterNode w")
  case None
  with assms show ?thesis by (simp add: handle_no_parameterNode)
next
  case (Some pn)
  show ?thesis
  proof (cases which)
    case UpdateGUIFromParameterNode
    with Some assms show ?thesis by (simp add: handle_UpdateGUI)
  next
    case UpdateParameterNodeFromGUI
    with Some assms show ?thesis
      by (simp add: handle_UpdateParameterNode handle_UpdateGUI)
  qed
qed


text \<open>
  Writing the selectors to the parameter node and reading them back: the two input
  selectors keep the user's selection, through the keys \<^verbatim>\<open>InputVolume\<close> and
  \<^verbatim>\<open>InputSeed\<close>; the output selector is set to what the key
  \<^verbatim>\<open>OutputSegmentation\<close> referred to before the write, because the write goes
  to the key \<^verbatim>\<open>OutputVolume\<close>.
\<close>

lemma selectors_after_write_and_read:
  assumes "parameterNode w = Some pn" "\<not> updatingGUIFromParameterNode w"
    and "\<forall>v. inputVolumeSelector w = Some v \<longrightarrow> v \<in> set (sceneNodes w)"
    and "\<forall>v. inputSeedSelector w = Some v \<longrightarrow> v \<in> set (sceneNodes w)"
  shows "\<exists>w1 w2. updateParameterNodeFromGUI w = Some w1 \<and> updateGUIFromParameterNode w1 = Some w2
           \<and> inputVolumeSelector w2 = inputVolumeSelector w
           \<and> inputSeedSelector w2 = inputSeedSelector w
           \<and> outputSegmentationSelector w2 = GetNodeReference w ''OutputSegmentation''"
proof -
  let ?pn = "pn(''InputVolume'' := inputVolumeSelector w, ''InputSeed'' := inputSeedSelector w,
               ''OutputVolume'' := outputSegmentationSelector w)"
  let ?w = "w\<lparr>parameterNode := Some ?pn\<rparr>"
  have g: "GetNodeReference ?w ''InputVolume'' = inputVolumeSelector w"
    "GetNodeReference ?w ''InputSeed'' = inputSeedSelector w"
    "GetNodeReference ?w ''OutputSegmentation'' = GetNodeReference w ''OutputSegmentation''"
    using assms by (auto simp add: GetNodeReference_def split: option.splits)
  have "\<exists>w1. updateParameterNodeFromGUI w = Some w1
          \<and> inputVolumeSelector w1 = inputVolumeSelector w
          \<and> inputSeedSelector w1 = inputSeedSelector w
          \<and> sceneNodes w1 = sceneNodes w
          \<and> parameterNode w1 = Some ?pn \<and> \<not> updatingGUIFromParameterNode w1"
  proof (cases "(pn ''InputVolume'' \<noteq> inputVolumeSelector w
          \<or> pn ''InputSeed'' \<noteq> inputSeedSelector w
          \<or> pn ''OutputVolume'' \<noteq> outputSegmentationSelector w) \<and> observingParameterNode w")
    case True
    have "handle UpdateParameterNodeFromGUI w = handle UpdateGUIFromParameterNode ?w"
      using True assms(1,2) by (subst handle_UpdateParameterNode[where pn=pn]) simp_all
    then show ?thesis
      using assms(2) g
      by (simp add: updateParameterNodeFromGUI_def handle_UpdateGUI[where pn="?pn"])
  next
    case False
    have "handle UpdateParameterNodeFromGUI w = Some ?w"
      using False assms(1,2) by (subst handle_UpdateParameterNode[where pn=pn]) auto
    then show ?thesis
      using assms(2) by (simp add: updateParameterNodeFromGUI_def)
  qed
  then obtain w1 where w1: "updateParameterNodeFromGUI w = Some w1"
    and eq: "inputVolumeSelector w1 = inputVolumeSelector w"
            "inputSeedSelector w1 = inputSeedSelector w"
            "sceneNodes w1 = sceneNodes w"
            "parameterNode w1 = Some ?pn" "\<not> updatingGUIFromParameterNode w1"
    by blast
  have "GetNodeReference w1 r = GetNodeReference ?w r" for r
    using eq by (simp add: GetNodeReference_def cong: option.case_cong)
  with w1 eq g show ?thesis
    by (simp add: updateGUIFromParameterNode_def handle_UpdateGUI[where pn="?pn"])
qed

text \<open>
  C6. The reentrancy flag prevents update cycles. With the flag set, a call of
  \<^verbatim>\<open>updateParameterNodeFromGUI\<close> or of \<^verbatim>\<open>updateGUIFromParameterNode\<close>
  returns at once and leaves the whole widget state, parameter node and GUI, as it was.
  \<^verbatim>\<open>updateGUIFromParameterNode\<close>, entered at top level with the flag clear, sets
  the flag for the calls nested in it: although its changes of the selectors call
  \<^verbatim>\<open>updateParameterNodeFromGUI\<close>, it returns with the parameter node exactly as
  it was, with the three selectors showing the referenced nodes, and with the flag clear
  again. \<^verbatim>\<open>updateParameterNodeFromGUI\<close>, entered at top level, returns with the
  flag clear and with the parameter node holding exactly the three references it wrote:
  the nested GUI update it triggers writes nothing back.
\<close>

theorem reentrancy_flag_guards:
  "(updatingGUIFromParameterNode w \<longrightarrow>
      updateParameterNodeFromGUI w = Some w \<and> updateGUIFromParameterNode w = Some w)
   \<and> (\<not> updatingGUIFromParameterNode w \<longrightarrow>
      (\<exists>w'. updateGUIFromParameterNode w = Some w'
            \<and> \<not> updatingGUIFromParameterNode w'
            \<and> parameterNode w' = parameterNode w
            \<and> (parameterNode w \<noteq> None \<longrightarrow>
                 inputVolumeSelector w' = GetNodeReference w ''InputVolume''
                 \<and> inputSeedSelector w' = GetNodeReference w ''InputSeed''
                 \<and> outputSegmentationSelector w' = GetNodeReference w ''OutputSegmentation''))
      \<and> (\<exists>w'. updateParameterNodeFromGUI w = Some w'
            \<and> \<not> updatingGUIFromParameterNode w'
            \<and> parameterNode w' =
                map_option (\<lambda>pn. pn(''InputVolume'' := inputVolumeSelector w,
                                      ''InputSeed'' := inputSeedSelector w,
                                      ''OutputVolume'' := outputSegmentationSelector w))
                  (parameterNode w)))"
proof (intro conjI impI)
  assume "updatingGUIFromParameterNode w"
  then show "updateParameterNodeFromGUI w = Some w" "updateGUIFromParameterNode w = Some w"
    by (simp_all add: updateGUIFromParameterNode_def updateParameterNodeFromGUI_def handle_guarded)
next
  assume f: "\<not> updatingGUIFromParameterNode w"
  show "\<exists>w'. updateGUIFromParameterNode w = Some w'
            \<and> \<not> updatingGUIFromParameterNode w'
            \<and> parameterNode w' = parameterNode w
            \<and> (parameterNode w \<noteq> None \<longrightarrow>
                 inputVolumeSelector w' = GetNodeReference w ''InputVolume''
                 \<and> inputSeedSelector w' = GetNodeReference w ''InputSeed''
                 \<and> outputSegmentationSelector w' = GetNodeReference w ''OutputSegmentation'')"
  proof (cases "parameterNode w")
    case None
    with f show ?thesis
      by (simp add: updateGUIFromParameterNode_def handle_no_parameterNode)
  next
    case (Some pn)
    with f show ?thesis
      by (simp add: updateGUIFromParameterNode_def handle_UpdateGUI)
  qed
  show "\<exists>w'. updateParameterNodeFromGUI w = Some w'
            \<and> \<not> updatingGUIFromParameterNode w'
            \<and> parameterNode w' =
                map_option (\<lambda>pn. pn(''InputVolume'' := inputVolumeSelector w,
                                      ''InputSeed'' := inputSeedSelector w,
                                      ''OutputVolume'' := outputSegmentationSelector w))
                  (parameterNode w)"
  proof (cases "parameterNode w")
    case None
    with f show ?thesis
      by (simp add: updateParameterNodeFromGUI_def handle_no_parameterNode)
  next
    case (Some pn)
    with f show ?thesis
      by (simp add: updateParameterNodeFromGUI_def handle_UpdateParameterNode handle_UpdateGUI)
  qed
qed

lemma widget_with_sel [simp]:
  "parameterNode (widget_with b) = Some Map.empty"
  "updatingGUIFromParameterNode (widget_with b) = b"
  "observingParameterNode (widget_with b)"
  "inputVolumeSelector (widget_with b) = Some vol1"
  "inputSeedSelector (widget_with b) = Some seed1"
  "outputSegmentationSelector (widget_with b) = Some seg1"
  "sceneNodes (widget_with b) = [vol1, seed1, seg1]"
  by (simp_all add: widget_with_def)

theorem reentrancy_flag_guards_witness:
  "updatingGUIFromParameterNode (widget_with True)
   \<and> updateParameterNodeFromGUI (widget_with True) = Some (widget_with True)
   \<and> updateGUIFromParameterNode (widget_with True) = Some (widget_with True)
   \<and> \<not> updatingGUIFromParameterNode (widget_with False)
   \<and> (\<exists>w'. updateGUIFromParameterNode (widget_with False) = Some w'
            \<and> \<not> updatingGUIFromParameterNode w'
            \<and> parameterNode w' = Some Map.empty
            \<and> inputVolumeSelector w' = None
            \<and> inputSeedSelector w' = None
            \<and> outputSegmentationSelector w' = None)
   \<and> (\<exists>w'. updateParameterNodeFromGUI (widget_with False) = Some w'
            \<and> \<not> updatingGUIFromParameterNode w'
            \<and> parameterNode w' =
                Some [''InputVolume'' \<mapsto> vol1, ''InputSeed'' \<mapsto> seed1, ''OutputVolume'' \<mapsto> seg1])"
  using reentrancy_flag_guards[of "widget_with True"] reentrancy_flag_guards[of "widget_with False"]
  by (simp add: GetNodeReference_def)

text \<open>
  C1 at a concrete widget. The user has selected the segmentation \<open>seg1\<close> in the
  output selector. After \<^verbatim>\<open>updateParameterNodeFromGUI\<close> and
  \<^verbatim>\<open>updateGUIFromParameterNode\<close> the two input selectors show the user's
  selection, and the output selector shows none: the selection was stored under
  \<^verbatim>\<open>OutputVolume\<close> and read back from \<^verbatim>\<open>OutputSegmentation\<close>.
\<close>

theorem output_selection_not_restored:
  "outputSegmentationSelector (widget_with False) = Some seg1
   \<and> map_option outputSegmentationSelector
        (updateParameterNodeFromGUI (widget_with False) \<bind> updateGUIFromParameterNode) = Some None
   \<and> map_option inputVolumeSelector
        (updateParameterNodeFromGUI (widget_with False) \<bind> updateGUIFromParameterNode)
        = Some (Some vol1)
   \<and> map_option inputSeedSelector
        (updateParameterNodeFromGUI (widget_with False) \<bind> updateGUIFromParameterNode)
        = Some (Some seed1)
   \<and> map_option (\<lambda>w. map_option (\<lambda>pn. (pn ''OutputVolume'', pn ''OutputSegmentation''))
                       (parameterNode w))
        (updateParameterNodeFromGUI (widget_with False) \<bind> updateGUIFromParameterNode)
        = Some (Some (Some seg1, None))"
  by (simp add: updateParameterNodeFromGUI_def updateGUIFromParameterNode_def
      handle_UpdateParameterNode[where pn=Map.empty]
      handle_UpdateGUI[where pn="Map.empty(''InputVolume'' \<mapsto> vol1, ''InputSeed'' \<mapsto> seed1,
                                           ''OutputVolume'' \<mapsto> seg1)"]
      GetNodeReference_def)

section \<open>The module's test\<close>

lemma convolutionKernel_no_attribute:
  "attributes s vol ''DICOM.instanceUIDs'' = None \<Longrightarrow>
   convolutionKernelFromVolumeNode h vol s = (Inr None, s)"
  by (simp add: convolutionKernelFromVolumeNode_def)

lemma process_raise_no_attribute:
  assumes "attributes s vol ''DICOM.instanceUIDs'' = None"
    and "fst (process h (Some vol) (Some seed) (Some out) s) \<noteq> None"
  shows "segments (segmentationOf (snd (process h (Some vol) (Some seed) (Some out) s)) out) = []"
proof -
  let ?s1 = "logging_info ''Processing started'' s"
  let ?b = "before_tag h vol seed out (chosen_kernel None) (after_kernel None ?s1)"
  have c: "convolutionKernelFromVolumeNode h vol ?s1 = (Inr None, ?s1)"
    using assms(1) by (simp add: convolutionKernel_no_attribute)
  show ?thesis
  proof (cases "segments (segmentationOf ?b out)")
    case Nil
    then show ?thesis by (simp add: process_steps[OF c] tag_and_finish_cases(1))
  next
    case (Cons x rest)
    with assms(2) show ?thesis by (simp add: process_steps[OF c] tag_and_finish_cases(2))
  qed
qed

lemma test_pipeline_process:
  "\<exists>vol seed out s5.
     test_pipeline h s = (fst (process h (Some vol) (Some seed) (Some out) s5),
                          snd (process h (Some vol) (Some seed) (Some out) s5), out)
     \<and> attributes s5 vol ''DICOM.instanceUIDs'' = None"
  unfolding test_pipeline_def Let_def split_def
  by (intro exI conjI, rule refl) (simp add: AddNewNodeByClass_def)

lemma allclose_expected:
  "allclose (c1, c2, c3) expectedsegmentCenter allclose_default_rtol 5 =
     (\<bar>c1 + 55 / 10\<bar> \<le> 5 + 55 / 1000000
      \<and> \<bar>c2 + 59 / 10\<bar> \<le> 5 + 59 / 1000000
      \<and> \<bar>c3 + 1003 / 10\<bar> \<le> 5 + 1003 / 1000000)"
  by (simp add: allclose_def isclose_def expectedsegmentCenter_def allclose_default_rtol_def)

lemma test_pipeline_good_host:
  "case test_pipeline (host_with [0, 170] c) s of
     (e, s', out) \<Rightarrow>
       e = None
       \<and> segments (segmentationOf s' out) =
           [(''Segment_1'', \<lparr>segment_name = ''170'',
               segment_tags = [''TerminologyEntry'' \<mapsto> trachea_terminology]\<rparr>)]"
proof -
  let ?h = "host_with [0, 170] c"
  from test_pipeline_process[of ?h s] obtain vol seed out s5 where
    tp: "test_pipeline ?h s = (fst (process ?h (Some vol) (Some seed) (Some out) s5),
                          snd (process ?h (Some vol) (Some seed) (Some out) s5), out)"
    and at: "attributes s5 vol ''DICOM.instanceUIDs'' = None"
    by blast
  let ?s1 = "logging_info ''Processing started'' s5"
  have c: "convolutionKernelFromVolumeNode ?h vol ?s1 = (Inr None, ?s1)"
    using at by (simp add: convolutionKernel_no_attribute)
  have ok: "fst (process ?h (Some vol) (Some seed) (Some out) s5) = None"
    by (simp add: process_steps[OF c] before_tag_frame
        tag_and_finish_cases(2)[where x=airway_segment and rest="[]"])
  from process_success_segments[OF ok] have
    "segments (segmentationOf (snd (process ?h (Some vol) (Some seed) (Some out) s5)) out) =
       [(''Segment_1'', \<lparr>segment_name = ''170'',
               segment_tags = [''TerminologyEntry'' \<mapsto> trachea_terminology]\<rparr>)]"
    by (auto simp add: airway_segment_def)
  with ok tp show ?thesis by simp
qed

text \<open>
  C9, as stated, fails: \<^verbatim>\<open>numpy.allclose\<close> adds its default relative
  tolerance to \<^verbatim>\<open>atol\<close>. A run that yields one segment whose centre is
  5.0005 mm below the expected point in the third coordinate passes the test, although the
  centre is not within 5.0 mm of the expected point.
\<close>

theorem test_passes_beyond_5mm:
  "test_AirwaySegmentation1 (host_with [0, 170] (- (55 / 10), - (59 / 10), - (1053005 / 10000)))
     (scene_with_uids None) = Passed
   \<and> \<not> allclose (- (55 / 10), - (59 / 10), - (1053005 / 10000)) expectedsegmentCenter 0 5"
proof -
  let ?c = "(- (55 / 10), - (59 / 10), - (1053005 / 10000)) :: real \<times> real \<times> real"
  have "test_AirwaySegmentation1 (host_with [0, 170] ?c) (scene_with_uids None) = Passed"
    using test_pipeline_good_host[of ?c "scene_with_uids None"]
    by (simp add: test_AirwaySegmentation1_def allclose_expected split: prod.splits)
  moreover have "\<not> allclose ?c expectedsegmentCenter 0 5"
    by (simp add: allclose_def isclose_def expectedsegmentCenter_def)
  ultimately show ?thesis by simp
qed

text \<open>
  C9, amended. The test passes exactly when, after the pipeline has run on the sample volume
  with one seed node and an empty output segmentation, the output segmentation contains
  exactly one segment and each coordinate of that segment's centre differs from the
  hard-coded point (-5.5, -5.9, -100.3) by at most 5.0 plus 0.00001 times the absolute value
  of the expected coordinate (coordinates taken as real numbers).
\<close>

theorem test_passes_iff:
  "(test_AirwaySegmentation1 h s = Passed) =
     (case test_pipeline h s of
        (e, s', outputSegmentationNode) \<Rightarrow>
          \<exists>segmentId segment c1 c2 c3.
            segments (segmentationOf s' outputSegmentationNode) = [(segmentId, segment)]
            \<and> getSegmentCenter h (segmentationOf s' outputSegmentationNode) segmentId = (c1, c2, c3)
            \<and> \<bar>c1 - (- (55 / 10))\<bar> \<le> 5 + 55 / 1000000
            \<and> \<bar>c2 - (- (59 / 10))\<bar> \<le> 5 + 59 / 1000000
            \<and> \<bar>c3 - (- (1003 / 10))\<bar> \<le> 5 + 1003 / 1000000)"
proof -
  from test_pipeline_process[of h s] obtain vol seed out s5 where
    tp: "test_pipeline h s = (fst (process h (Some vol) (Some seed) (Some out) s5),
                          snd (process h (Some vol) (Some seed) (Some out) s5), out)"
    and at: "attributes s5 vol ''DICOM.instanceUIDs'' = None"
    by blast
  let ?P = "process h (Some vol) (Some seed) (Some out) s5"
  let ?sg = "segmentationOf (snd ?P) out"
  show ?thesis
  proof (cases "fst ?P")
    case (Some e)
    with process_raise_no_attribute[OF at, of h seed out] have "segments ?sg = []" by simp
    with Some tp show ?thesis by (simp add: test_AirwaySegmentation1_def)
  next
    case None
    show ?thesis
    proof (cases "segments ?sg")
      case Nil
      with None tp show ?thesis by (simp add: test_AirwaySegmentation1_def)
    next
      case (Cons x rest)
      obtain c1 c2 c3 where c: "getSegmentCenter h ?sg (fst x) = (c1, c2, c3)"
        by (cases "getSegmentCenter h ?sg (fst x)") auto
      show ?thesis
      proof (cases rest)
        case Nil
        with Cons None tp c show ?thesis
          by (cases x) (simp add: test_AirwaySegmentation1_def allclose_expected)
      next
        case (Cons y ys)
        with \<open>segments ?sg = x # rest\<close> None tp show ?thesis
          by (simp add: test_AirwaySegmentation1_def)
      qed
    qed
  qed
qed

theorem test_passes_iff_witness:
  "test_AirwaySegmentation1 (host_with [0, 170] (- (55 / 10), - (59 / 10), - (1003 / 10)))
     (scene_with_uids None) = Passed
   \<and> test_AirwaySegmentation1 (host_with [0, 170] (0, - (59 / 10), - (1003 / 10)))
     (scene_with_uids None) \<noteq> Passed"
  using test_passes_iff[of "host_with [0, 170] (- (55 / 10), - (59 / 10), - (1003 / 10))"
      "scene_with_uids None"]
    test_passes_iff[of "host_with [0, 170] (0, - (59 / 10), - (1003 / 10))" "scene_with_uids None"]
    test_pipeline_good_host[of "(- (55 / 10), - (59 / 10), - (1003 / 10))" "scene_with_uids None"]
    test_pipeline_good_host[of "(0, - (59 / 10), - (1003 / 10))" "scene_with_uids None"]
  by (simp split: prod.splits)

end
